theory Spec2Isabelle
  imports Complex_Main
begin

section \<open>Locker reservation back end: data model\<close>

text \<open>
  The handlers of \<^verbatim>\<open>controllers/lockerController.ts\<close> and the OTP check of
  \<^verbatim>\<open>services/twilioService.ts\<close> are embedded as functions on an explicit store,
  whose tables follow \<^verbatim>\<open>config/database.sql\<close>.

  Conventions of the embedding:
  \<^item> a UUID is a natural number; the text that PostgreSQL parses into it is not
    modelled, only whether it parses (type \<open>idparam\<close>);
  \<^item> a timestamp is an integer number of milliseconds since the epoch; the server
    and the database run in UTC, so that \<^verbatim>\<open>setHours(getHours() + n)\<close> adds \<open>n\<close>
    hours exactly and a stored \<^verbatim>\<open>TIMESTAMP\<close> is the instant that was sent; the
    range of \<^verbatim>\<open>Date\<close> and the range of the column are modelled; \<^verbatim>\<open>new Date()\<close> and
    \<^verbatim>\<open>NOW()\<close> are readings of the current time;
  \<^item> a \<^verbatim>\<open>DECIMAL(10,2)\<close> value is an integer number of hundredths, or \<open>NaN\<close>
    (which \<^verbatim>\<open>numeric\<close> columns accept); JavaScript's doubles are taken exact,
    since the rounding error of one product or sum is far below the half
    hundredth that the column rounds away; the overflow of the column is modelled;
  \<^item> a nullable column is an \<open>option\<close>;
  \<^item> every statement reaches the database: connection failures are left out, and
    the user of the token exists in \<^verbatim>\<open>users\<close> (no code deletes users);
  \<^item> a failure is the HTTP status and message that the handler sends; a failed
    handler leaves the store as it was (its transaction is rolled back, or its only
    writing statement failed).
\<close>

type_synonym uuid = nat
type_synonym timestamp = int

datatype decimal = Dec int | DNaN

datatype locker_status = AVAILABLE | OCCUPIED | MAINTENANCE
datatype reservation_status = ACTIVE | COMPLETED | CANCELLED

record locker_size =
  size_name :: "string option"
  base_price :: decimal

record locker =
  location_id :: "uuid option"
  size_id :: "uuid option"
  locker_code :: string
  l_status :: locker_status

record reservation =
  user_id :: "uuid option"
  locker_id :: "uuid option"
  start_time :: timestamp
  expected_end_time :: "timestamp option"
  actual_end_time :: "timestamp option"
  r_status :: reservation_status
  total_cost :: "decimal option"
  access_code :: "int option"
  extension_count :: "int option"
  extended_end_time :: "timestamp option"
  extension_cost :: "decimal option"
  created_at :: "timestamp option"

record reservation_history_row =
  h_reservation_id :: "uuid option"
  h_start_time :: timestamp
  h_end_time :: timestamp
  h_total_hours :: "int option"
  h_total_cost :: "decimal option"

record verification_code =
  code_id :: uuid
  v_user_id :: "uuid option"
  phone :: string
  code :: string
  purpose :: "string option"
  expires_at :: timestamp
  is_used :: "bool option"

text \<open>
  The tables read or written by a primary key are maps from that key; the table
  \<^verbatim>\<open>verification_codes\<close>, which \<open>verifyOTP\<close> scans, is the list of its rows in
  the order in which a scan returns them.
\<close>

record db =
  locker_sizes :: "uuid \<rightharpoonup> locker_size"
  lockers :: "uuid \<rightharpoonup> locker"
  reservations :: "uuid \<rightharpoonup> reservation"
  reservation_history :: "uuid \<rightharpoonup> reservation_history_row"
  verification_codes :: "verification_code list"

type_synonym failure = "nat \<times> string"


section \<open>Request values\<close>

text \<open>
  A field of \<^verbatim>\<open>req.body\<close> is any JSON value. The handlers use such a value in two
  ways only, in the test \<^verbatim>\<open>!v\<close> and in \<^verbatim>\<open>parseInt(v)\<close>, which reads the text that
  \<^verbatim>\<open>ToString\<close> makes of \<open>v\<close>. So a number is given by the value of the decimal that
  \<^verbatim>\<open>ToString\<close> prints for it, which is the shortest decimal that reads back as the
  same double: the double nearest to \<open>10\<^sup>2\<^sup>3\<close>, printed \<^verbatim>\<open>1e+23\<close>, is \<open>JNum (10 ^ 23)\<close>,
  although its exact value is 99999999999999991611392; the double printed
  \<^verbatim>\<open>0.000001\<close> is \<open>JNum (1 / 10 ^ 6)\<close> and the one printed \<^verbatim>\<open>5e-7\<close> is
  \<open>JNum (5 / 10 ^ 7)\<close>. A number is falsy exactly when that decimal is zero.
  \<open>JInfinity\<close> is the infinity of either sign, which \<^verbatim>\<open>JSON.parse\<close> makes of a literal
  beyond the range of the doubles such as \<^verbatim>\<open>1e400\<close>: it is truthy, and its text
  \<^verbatim>\<open>Infinity\<close> has no digit to read; \<^verbatim>\<open>NaN\<close> is no JSON value. An object or array
  is given by the text that \<^verbatim>\<open>ToString\<close> makes of it. Strings are ASCII.
\<close>

datatype jsval =
  JUndefined | JNull | JBool bool | JNum rat | JInfinity bool | JStr string | JObj string

text \<open>The test \<^verbatim>\<open>!v\<close> of the handlers is \<open>\<not> truthy v\<close>.\<close>

fun truthy :: "jsval \<Rightarrow> bool" where
  "truthy JUndefined = False"
| "truthy JNull = False"
| "truthy (JBool b) = b"
| "truthy (JNum q) = (q \<noteq> 0)"
| "truthy (JInfinity negative) = True"
| "truthy (JStr s) = (s \<noteq> [])"
| "truthy (JObj s) = True"

text \<open>
  An identifier sent by the client: \<open>IdMalformed\<close> is a value that PostgreSQL
  rejects as \<^verbatim>\<open>uuid\<close> (the query throws), \<open>Id u\<close> the text of the UUID \<open>u\<close>. In a
  request body the field is optional: \<open>None\<close> is a missing or falsy value.
\<close>

datatype idparam = IdMalformed | Id uuid


subsection \<open>\<^verbatim>\<open>parseInt\<close>\<close>

definition is_space :: "char \<Rightarrow> bool" where
  "is_space c = (c = CHR '' '' \<or> c = CHR 0x09 \<or> c = CHR 0x0A \<or> c = CHR 0x0B
                 \<or> c = CHR 0x0C \<or> c = CHR 0x0D)"

definition digit_value :: "char \<Rightarrow> nat option" where
  "digit_value c =
     (let n = (of_char c :: nat) in
      if 48 \<le> n \<and> n \<le> 57 then Some (n - 48)
      else if 97 \<le> n \<and> n \<le> 102 then Some (n - 87)
      else if 65 \<le> n \<and> n \<le> 70 then Some (n - 55)
      else None)"

definition is_digit :: "nat \<Rightarrow> char \<Rightarrow> bool" where
  "is_digit radix c = (case digit_value c of None \<Rightarrow> False | Some v \<Rightarrow> v < radix)"

definition digits_value :: "nat \<Rightarrow> string \<Rightarrow> nat" where
  "digits_value radix z = foldl (\<lambda>acc c. acc * radix + (case digit_value c of None \<Rightarrow> 0 | Some v \<Rightarrow> v)) 0 z"

text \<open>
  \<^verbatim>\<open>parseInt(string)\<close> with no radix: leading white space is skipped, a sign is read,
  a prefix \<^verbatim>\<open>0x\<close> selects radix 16, and the longest run of digits is the result;
  no digit at all gives \<^verbatim>\<open>NaN\<close>, which is \<open>None\<close>.
\<close>

definition parseInt_string :: "string \<Rightarrow> int option" where
  "parseInt_string s =
     (let s1 = dropWhile is_space s;
          neg = (case s1 of c # _ \<Rightarrow> c = CHR ''-'' | [] \<Rightarrow> False);
          s2 = (case s1 of c # cs \<Rightarrow> if c = CHR ''-'' \<or> c = CHR ''+'' then cs else s1
                | [] \<Rightarrow> []);
          hex = (case s2 of a # b # _ \<Rightarrow> a = CHR ''0'' \<and> (b = CHR ''x'' \<or> b = CHR ''X'')
                 | _ \<Rightarrow> False);
          radix = (if hex then 16 else 10);
          s3 = (if hex then drop 2 s2 else s2);
          z = takeWhile (is_digit radix) s3
      in if z = [] then None
         else Some ((if neg then - 1 else 1) * int (digits_value radix z)))"

fun leading_digit :: "nat \<Rightarrow> nat" where
  "leading_digit n = (if n < 10 then n else leading_digit (n div 10))"

function first_fraction_digit :: "nat \<Rightarrow> nat \<Rightarrow> nat" where
  "first_fraction_digit a b =
     (if a = 0 \<or> b \<le> a then a div b else first_fraction_digit (10 * a) b)"
  by pat_completeness auto
termination
  by (relation "measure (\<lambda>(a, b). b - a)") auto

text \<open>
  \<^verbatim>\<open>parseInt(number)\<close> reads the text of the number; the argument \<open>q\<close> is the value
  of that text. When \<open>10\<^sup>-\<^sup>6 \<le> \<bar>q\<bar> < 10\<^sup>2\<^sup>1\<close> the text is positional, and its integer
  part is \<open>q\<close> truncated toward zero. Otherwise the text is in exponent notation,
  whose mantissa starts with one digit followed by a point or by the exponent: the
  result is that digit, the leading digit of \<open>q\<close>, with the sign.
\<close>

definition parseInt_number :: "rat \<Rightarrow> int" where
  "parseInt_number q =
     (if q = 0 then 0
      else if 1 / 10 ^ 6 \<le> \<bar>q\<bar> \<and> \<bar>q\<bar> < 10 ^ 21
        then (if 0 \<le> q then \<lfloor>q\<rfloor> else \<lceil>q\<rceil>)
      else if 10 ^ 21 \<le> \<bar>q\<bar>
        then sgn \<lfloor>q\<rfloor> * int (leading_digit (nat \<lfloor>\<bar>q\<bar>\<rfloor>))
      else (case quotient_of \<bar>q\<bar> of
              (a, b) \<Rightarrow> (if q < 0 then - 1 else 1) * int (first_fraction_digit (nat a) (nat b))))"

fun parseInt :: "jsval \<Rightarrow> int option" where
  "parseInt JUndefined = None"
| "parseInt JNull = None"
| "parseInt (JBool b) = None"
| "parseInt (JNum q) = Some (parseInt_number q)"
| "parseInt (JInfinity negative) = None"
| "parseInt (JStr s) = parseInt_string s"
| "parseInt (JObj s) = parseInt_string s"


section \<open>Numbers and columns\<close>

text \<open>
  A \<^verbatim>\<open>DECIMAL\<close> column reaches JavaScript as a string, which \<^verbatim>\<open>*\<close> converts to a
  number; \<open>decimal\<close> stands for both. \<open>js_times p h\<close> is \<^verbatim>\<open>p * h\<close> for the result
  \<open>h\<close> of \<open>parseInt\<close>, and \<open>js_plus\<close> is \<^verbatim>\<open>+\<close> on two numbers.
\<close>

fun js_times :: "decimal \<Rightarrow> int option \<Rightarrow> decimal" where
  "js_times (Dec p) (Some h) = Dec (p * h)"
| "js_times _ _ = DNaN"

fun js_plus :: "decimal \<Rightarrow> decimal \<Rightarrow> decimal" where
  "js_plus (Dec a) (Dec b) = Dec (a + b)"
| "js_plus _ _ = DNaN"

text \<open>\<^verbatim>\<open>parseFloat\<close> of a column: \<^verbatim>\<open>NULL\<close> arrives as \<^verbatim>\<open>null\<close> and parses to \<^verbatim>\<open>NaN\<close>.\<close>

fun parseFloat :: "decimal option \<Rightarrow> decimal" where
  "parseFloat None = DNaN"
| "parseFloat (Some v) = v"

text \<open>
  A value fits \<^verbatim>\<open>DECIMAL(10,2)\<close> when it is below \<open>10\<^sup>8\<close>, that is \<open>10\<^sup>1\<^sup>0\<close>
  hundredths, in absolute value; \<^verbatim>\<open>NaN\<close> always fits. A value fits \<^verbatim>\<open>INT\<close> when it
  is a signed 32-bit integer. A statement that stores a value that does not fit fails.
\<close>

fun fits_decimal :: "decimal \<Rightarrow> bool" where
  "fits_decimal DNaN = True"
| "fits_decimal (Dec v) = (\<bar>v\<bar> < 10 ^ 10)"

definition fits_int4 :: "int \<Rightarrow> bool" where
  "fits_int4 n = (- (2 ^ 31) \<le> n \<and> n < 2 ^ 31)"

text \<open>
  A \<^verbatim>\<open>Date\<close> holds an instant of at most \<open>8.64 \<times> 10\<^sup>1\<^sup>5\<close> milliseconds in absolute
  value; anything else makes the invalid date.
\<close>

definition valid_date :: "timestamp \<Rightarrow> bool" where
  "valid_date t = (\<bar>t\<bar> \<le> 8640000000000000)"

text \<open>
  \<^verbatim>\<open>d.setHours(d.getHours() + h)\<close> on the date \<open>d\<close> made from the instant \<open>t\<close>: \<open>None\<close>
  is the invalid date, which comes from \<^verbatim>\<open>NaN\<close> hours, from a \<open>t\<close> that is no valid
  date, and from a result outside the range of \<^verbatim>\<open>Date\<close>.
\<close>

fun setHours :: "timestamp \<Rightarrow> int option \<Rightarrow> timestamp option" where
  "setHours t None = None"
| "setHours t (Some h) =
     (if valid_date t \<and> valid_date (t + h * 3600000) then Some (t + h * 3600000) else None)"

text \<open>
  A \<^verbatim>\<open>TIMESTAMP\<close> column accepts a valid date from 24 November 4714 BC on, which is
  \<open>- 210866803200000\<close>; its upper limit is beyond the range of \<^verbatim>\<open>Date\<close>. A statement
  that is sent an invalid date, or a date before that day, fails.
\<close>

definition fits_timestamp :: "timestamp \<Rightarrow> bool" where
  "fits_timestamp t = (- 210866803200000 \<le> t \<and> valid_date t)"

text \<open>
  The access code is stored as its decimal text in a \<^verbatim>\<open>VARCHAR(6)\<close> column, which
  accepts at most six characters, the sign included.
\<close>

definition fits_access_code :: "int \<Rightarrow> bool" where
  "fits_access_code n = (- 100000 < n \<and> n < 1000000)"

text \<open>\<^verbatim>\<open>UPDATE lockers SET status = $1 WHERE locker_id = $2\<close>.\<close>

definition update_locker_status :: "(uuid \<rightharpoonup> locker) \<Rightarrow> locker_status \<Rightarrow> uuid \<Rightarrow> (uuid \<rightharpoonup> locker)" where
  "update_locker_status tbl st lid =
     (case tbl lid of None \<Rightarrow> tbl | Some l \<Rightarrow> tbl(lid \<mapsto> l\<lparr>l_status := st\<rparr>))"


section \<open>\<^verbatim>\<open>reserveLocker\<close>\<close>

definition required_reserve :: failure where
  "required_reserve = (400, ''Locker ID and duration are required'')"

definition not_available :: failure where
  "not_available = (400, ''Locker not available'')"

definition failed_reserve :: failure where
  "failed_reserve = (500, ''Failed to reserve locker'')"

text \<open>
  The availability query: the locker \<open>lid\<close> joined with its size, if its status is
  \<^verbatim>\<open>AVAILABLE\<close>. It runs on the pool, before and outside the transaction.
\<close>

definition lockerQuery :: "db \<Rightarrow> uuid \<Rightarrow> (locker \<times> decimal) option" where
  "lockerQuery d lid =
     (case lockers d lid of
        None \<Rightarrow> None
      | Some l \<Rightarrow>
          (case size_id l of
             None \<Rightarrow> None
           | Some sid \<Rightarrow>
               (case locker_sizes d sid of
                  None \<Rightarrow> None
                | Some ls \<Rightarrow> if l_status l = AVAILABLE then Some (l, base_price ls) else None)))"

text \<open>
  What one run of the handler draws from its environment: \<^verbatim>\<open>Math.random()\<close>, which
  is at least 0 and less than 1, the two \<^verbatim>\<open>new Date()\<close>, the result of
  \<^verbatim>\<open>generateUUID()\<close>, and the \<^verbatim>\<open>NOW()\<close> that fills \<^verbatim>\<open>created_at\<close>.
\<close>

record reserve_env =
  random_value :: rat
  start_clock :: timestamp
  end_clock :: timestamp
  new_reservation_id :: uuid
  created_clock :: timestamp

record reserve_ok =
  ok_reservation :: reservation
  ok_accessCode :: int
  ok_expiresAt :: timestamp

text \<open>
  The part of the handler after the availability query, for the row that the query
  returned with price \<open>price\<close>: the cost, then the transaction. The transaction sets
  the locker \<^verbatim>\<open>OCCUPIED\<close> whatever its status is now, and inserts the reservation. The
  insertion fails on an end time that is invalid, on a start or end time that the
  column does not accept, on a reservation id that exists, on a locker that does not
  exist, and on a cost or an access code that does not fit its column; then
  everything is rolled back.
\<close>

definition reserve_transaction ::
  "db \<Rightarrow> uuid \<Rightarrow> decimal \<Rightarrow> jsval \<Rightarrow> uuid option \<Rightarrow> reserve_env \<Rightarrow> (failure + reserve_ok) \<times> db" where
  "reserve_transaction d lid price duration userId env =
     (let durationHours = parseInt duration;
          totalCost = js_times price durationHours;
          d1 = d\<lparr>lockers := update_locker_status (lockers d) OCCUPIED lid\<rparr>;
          accessCode = \<lfloor>100000 + random_value env * 900000\<rfloor>;
          startTime = start_clock env;
          reservationId = new_reservation_id env
      in case setHours (end_clock env) durationHours of
           None \<Rightarrow> (Inl failed_reserve, d)
         | Some endTime \<Rightarrow>
             if \<not> fits_timestamp startTime \<or> \<not> fits_timestamp endTime
                \<or> reservations d1 reservationId \<noteq> None \<or> lockers d1 lid = None
                \<or> \<not> fits_decimal totalCost \<or> \<not> fits_access_code accessCode
             then (Inl failed_reserve, d)
             else
               let row = \<lparr>user_id = userId, locker_id = Some lid, start_time = startTime,
                          expected_end_time = Some endTime, actual_end_time = None,
                          r_status = ACTIVE, total_cost = Some totalCost,
                          access_code = Some accessCode, extension_count = Some 0,
                          extended_end_time = None, extension_cost = None,
                          created_at = Some (created_clock env)\<rparr>
               in (Inr \<lparr>ok_reservation = row, ok_accessCode = accessCode, ok_expiresAt = endTime\<rparr>,
                   d1\<lparr>reservations := (reservations d1)(reservationId \<mapsto> row)\<rparr>))"

text \<open>
  The part of the handler before the transaction: the test for the required fields,
  then the availability query. It yields the failure to send, or the locker and the
  price that the query returned.
\<close>

definition reserve_check :: "db \<Rightarrow> idparam option \<Rightarrow> jsval \<Rightarrow> failure + (uuid \<times> decimal)" where
  "reserve_check d lockerId duration =
     (case lockerId of
        None \<Rightarrow> Inl required_reserve
      | Some p \<Rightarrow>
          if \<not> truthy duration then Inl required_reserve
          else
            (case p of
               IdMalformed \<Rightarrow> Inl failed_reserve
             | Id lid \<Rightarrow>
                 (case lockerQuery d lid of
                    None \<Rightarrow> Inl not_available
                  | Some (locker, price) \<Rightarrow> Inr (lid, price))))"

text \<open>The handler, run with no other request in between its statements.\<close>

definition reserveLocker ::
  "db \<Rightarrow> idparam option \<Rightarrow> jsval \<Rightarrow> uuid option \<Rightarrow> reserve_env \<Rightarrow> (failure + reserve_ok) \<times> db" where
  "reserveLocker d lockerId duration userId env =
     (case reserve_check d lockerId duration of
        Inl f \<Rightarrow> (Inl f, d)
      | Inr (lid, price) \<Rightarrow> reserve_transaction d lid price duration userId env)"

text \<open>
  Two runs of the handler whose availability queries both come before either
  transaction: each \<^verbatim>\<open>await\<close> is a round trip of its own, so both requests read the
  store \<open>d\<close>; the transactions then run one after the other, the second on the store
  that the first has committed. The result is the two responses and the final store.
\<close>

definition reserve_interleaved ::
  "db \<Rightarrow> idparam option \<Rightarrow> jsval \<Rightarrow> uuid option \<Rightarrow> reserve_env
      \<Rightarrow> idparam option \<Rightarrow> jsval \<Rightarrow> uuid option \<Rightarrow> reserve_env
      \<Rightarrow> ((failure + reserve_ok) \<times> (failure + reserve_ok)) \<times> db" where
  "reserve_interleaved d lockerId1 duration1 userId1 env1 lockerId2 duration2 userId2 env2 =
     (let check1 = reserve_check d lockerId1 duration1;
          check2 = reserve_check d lockerId2 duration2;
          (res1, d1) = (case check1 of
                          Inl f \<Rightarrow> (Inl f, d)
                        | Inr (lid, price) \<Rightarrow> reserve_transaction d lid price duration1 userId1 env1);
          (res2, d2) = (case check2 of
                          Inl f \<Rightarrow> (Inl f, d1)
                        | Inr (lid, price) \<Rightarrow> reserve_transaction d1 lid price duration2 userId2 env2)
      in ((res1, res2), d2))"


section \<open>\<^verbatim>\<open>extendReservation\<close>\<close>

definition required_extend :: failure where
  "required_extend = (400, ''Reservation ID and additional hours are required'')"

definition active_not_found :: failure where
  "active_not_found = (404, ''Active reservation not found'')"

definition failed_extend :: failure where
  "failed_extend = (500, ''Failed to extend reservation'')"

text \<open>
  The reservation \<open>rid\<close> joined with its locker and the locker's size, if it belongs
  to the user and is \<^verbatim>\<open>ACTIVE\<close>. A comparison with \<^verbatim>\<open>NULL\<close> selects nothing.
\<close>

definition reservationQuery :: "db \<Rightarrow> uuid \<Rightarrow> uuid option \<Rightarrow> (reservation \<times> decimal) option" where
  "reservationQuery d rid userId =
     (case reservations d rid of
        None \<Rightarrow> None
      | Some r \<Rightarrow>
          if userId = None \<or> user_id r \<noteq> userId \<or> r_status r \<noteq> ACTIVE then None
          else
            (case locker_id r of
               None \<Rightarrow> None
             | Some lid \<Rightarrow>
                 (case lockers d lid of
                    None \<Rightarrow> None
                  | Some l \<Rightarrow>
                      (case size_id l of
                         None \<Rightarrow> None
                       | Some sid \<Rightarrow>
                           (case locker_sizes d sid of
                              None \<Rightarrow> None
                            | Some ls \<Rightarrow> Some (r, base_price ls))))))"

text \<open>
  \<^verbatim>\<open>new Date(reservation.extended_end_time || reservation.expected_end_time)\<close>: the
  extended end if the column is set, else the expected end, and the epoch if neither
  is set (\<^verbatim>\<open>new Date(null)\<close>).
\<close>

definition current_end :: "reservation \<Rightarrow> timestamp" where
  "current_end r =
     (case extended_end_time r of
        Some t \<Rightarrow> t
      | None \<Rightarrow> (case expected_end_time r of Some t \<Rightarrow> t | None \<Rightarrow> 0))"

text \<open>
  The \<^verbatim>\<open>UPDATE\<close> statement with its parameters \<^verbatim>\<open>$1\<close>, \<^verbatim>\<open>$2\<close>, \<^verbatim>\<open>$3\<close>, \<^verbatim>\<open>$4\<close>. The count
  and the extension cost are computed by the database from the row as it is now;
  the end time and the total are the values that the handler computed. The result
  is \<open>None\<close> when the statement fails, else the row returned and the new store.
\<close>

definition updateQuery ::
  "db \<Rightarrow> timestamp option \<Rightarrow> decimal \<Rightarrow> decimal \<Rightarrow> uuid \<Rightarrow> (reservation option \<times> db) option" where
  "updateQuery d newEndTime additionalCost newTotalCost rid =
     (case newEndTime of
        None \<Rightarrow> None
      | Some t \<Rightarrow>
          (case reservations d rid of
             None \<Rightarrow> if fits_timestamp t then Some (None, d) else None
           | Some r \<Rightarrow>
               let count = map_option (\<lambda>n. n + 1) (extension_count r);
                   cost = js_plus (case extension_cost r of None \<Rightarrow> Dec 0 | Some c \<Rightarrow> c)
                            additionalCost
               in if (case count of None \<Rightarrow> False | Some n \<Rightarrow> \<not> fits_int4 n)
                     \<or> \<not> fits_decimal cost \<or> \<not> fits_decimal newTotalCost
                     \<or> \<not> fits_timestamp t
                  then None
                  else
                    let r' = r\<lparr>extended_end_time := Some t, extension_count := count,
                                extension_cost := Some cost, total_cost := Some newTotalCost\<rparr>
                    in Some (Some r', d\<lparr>reservations := (reservations d)(rid \<mapsto> r')\<rparr>)))"

record extend_ok =
  ok_updated :: "reservation option"
  ok_additionalCost :: decimal
  ok_newEndTime :: "timestamp option"

definition extendReservation ::
  "db \<Rightarrow> idparam option \<Rightarrow> jsval \<Rightarrow> uuid option \<Rightarrow> (failure + extend_ok) \<times> db" where
  "extendReservation d reservationId additionalHours userId =
     (case reservationId of
        None \<Rightarrow> (Inl required_extend, d)
      | Some p \<Rightarrow>
          if \<not> truthy additionalHours then (Inl required_extend, d)
          else
            (case p of
               IdMalformed \<Rightarrow> (Inl failed_extend, d)
             | Id rid \<Rightarrow>
                 (case reservationQuery d rid userId of
                    None \<Rightarrow> (Inl active_not_found, d)
                  | Some (reservation, price) \<Rightarrow>
                      let additionalHoursNum = parseInt additionalHours;
                          newEndTime = setHours (current_end reservation) additionalHoursNum;
                          additionalCost = js_times price additionalHoursNum;
                          newTotalCost = js_plus (parseFloat (total_cost reservation)) additionalCost
                      in (case updateQuery d newEndTime additionalCost newTotalCost rid of
                            None \<Rightarrow> (Inl failed_extend, d)
                          | Some (row, d') \<Rightarrow>
                              (Inr \<lparr>ok_updated = row, ok_additionalCost = additionalCost,
                                    ok_newEndTime = newEndTime\<rparr>, d')))))"


text \<open>
  The handler in its two round trips. \<open>extend_select\<close> is the part up to the
  \<^verbatim>\<open>UPDATE\<close>: the test for the required fields, the query, and the parameters
  computed from the row that the query returned. \<open>extend_update\<close> is the \<^verbatim>\<open>UPDATE\<close>
  with these parameters, and the response.
\<close>

record extend_params =
  p_reservationId :: uuid
  p_newEndTime :: "timestamp option"
  p_additionalCost :: decimal
  p_newTotalCost :: decimal

definition extend_select :: "db \<Rightarrow> idparam option \<Rightarrow> jsval \<Rightarrow> uuid option \<Rightarrow> failure + extend_params" where
  "extend_select d reservationId additionalHours userId =
     (case reservationId of
        None \<Rightarrow> Inl required_extend
      | Some p \<Rightarrow>
          if \<not> truthy additionalHours then Inl required_extend
          else
            (case p of
               IdMalformed \<Rightarrow> Inl failed_extend
             | Id rid \<Rightarrow>
                 (case reservationQuery d rid userId of
                    None \<Rightarrow> Inl active_not_found
                  | Some (reservation, price) \<Rightarrow>
                      let additionalHoursNum = parseInt additionalHours;
                          newEndTime = setHours (current_end reservation) additionalHoursNum;
                          additionalCost = js_times price additionalHoursNum;
                          newTotalCost = js_plus (parseFloat (total_cost reservation)) additionalCost
                      in Inr \<lparr>p_reservationId = rid, p_newEndTime = newEndTime,
                               p_additionalCost = additionalCost,
                               p_newTotalCost = newTotalCost\<rparr>)))"

definition extend_update :: "db \<Rightarrow> extend_params \<Rightarrow> (failure + extend_ok) \<times> db" where
  "extend_update d ps =
     (case updateQuery d (p_newEndTime ps) (p_additionalCost ps) (p_newTotalCost ps)
             (p_reservationId ps) of
        None \<Rightarrow> (Inl failed_extend, d)
      | Some (row, d') \<Rightarrow>
          (Inr \<lparr>ok_updated = row, ok_additionalCost = p_additionalCost ps,
                ok_newEndTime = p_newEndTime ps\<rparr>, d'))"

text \<open>
  Two runs of the handler whose \<^verbatim>\<open>SELECT\<close> statements both come before either
  \<^verbatim>\<open>UPDATE\<close>: both statements go to the pool, in no transaction, and each \<^verbatim>\<open>await\<close>
  is a round trip of its own, so both requests read the store \<open>d\<close>; the updates then
  run one after the other, each with the parameters computed from the row as it was
  read. The result is the two responses and the final store.
\<close>

definition extend_interleaved ::
  "db \<Rightarrow> idparam option \<Rightarrow> jsval \<Rightarrow> uuid option \<Rightarrow> idparam option \<Rightarrow> jsval \<Rightarrow> uuid option
      \<Rightarrow> ((failure + extend_ok) \<times> (failure + extend_ok)) \<times> db" where
  "extend_interleaved d reservationId1 additionalHours1 userId1
       reservationId2 additionalHours2 userId2 =
     (let select1 = extend_select d reservationId1 additionalHours1 userId1;
          select2 = extend_select d reservationId2 additionalHours2 userId2;
          (res1, d1) = (case select1 of Inl f \<Rightarrow> (Inl f, d) | Inr ps \<Rightarrow> extend_update d ps);
          (res2, d2) = (case select2 of Inl f \<Rightarrow> (Inl f, d1) | Inr ps \<Rightarrow> extend_update d1 ps)
      in ((res1, res2), d2))"


section \<open>\<^verbatim>\<open>releaseLocker\<close>\<close>

definition failed_release :: failure where
  "failed_release = (500, ''Failed to release locker'')"

text \<open>The reservation \<open>rid\<close>, if it belongs to the user and is \<^verbatim>\<open>ACTIVE\<close>.\<close>

definition release_query :: "db \<Rightarrow> uuid \<Rightarrow> uuid option \<Rightarrow> reservation option" where
  "release_query d rid userId =
     (case reservations d rid of
        None \<Rightarrow> None
      | Some r \<Rightarrow>
          if userId = None \<or> user_id r \<noteq> userId \<or> r_status r \<noteq> ACTIVE then None
          else Some r)"

text \<open>
  What one run draws from its environment: the \<^verbatim>\<open>NOW()\<close> of the database, which
  becomes \<^verbatim>\<open>actual_end_time\<close>; the later \<^verbatim>\<open>new Date()\<close> of the server, which becomes
  the end time of the history row; and the result of \<^verbatim>\<open>generateUUID()\<close>.
\<close>

record release_env =
  completed_clock :: timestamp
  release_clock :: timestamp
  new_history_id :: uuid

text \<open>
  \<^verbatim>\<open>Math.ceil((endTime.getTime() - startTime.getTime()) / (1000 * 60 * 60))\<close>.
\<close>

definition totalHours :: "timestamp \<Rightarrow> timestamp \<Rightarrow> int" where
  "totalHours startTime endTime = \<lceil>rat_of_int (endTime - startTime) / (1000 * 60 * 60)\<rceil>"

text \<open>
  The transaction, for the row \<open>reservation\<close> that the query returned: the two updates
  and the insertion into the history. The insertion fails on a history id that
  exists, on a reservation that does not exist and on a number of hours that does
  not fit \<^verbatim>\<open>INT\<close>; then everything is rolled back.
\<close>

definition release_transaction ::
  "db \<Rightarrow> uuid \<Rightarrow> reservation \<Rightarrow> release_env \<Rightarrow> (failure + unit) \<times> db" where
  "release_transaction d rid reservation env =
     (let d1 = (case reservations d rid of
                  None \<Rightarrow> d
                | Some r \<Rightarrow>
                    d\<lparr>reservations := (reservations d)(rid \<mapsto>
                         r\<lparr>r_status := COMPLETED,
                           actual_end_time := Some (completed_clock env)\<rparr>)\<rparr>);
          d2 = (case locker_id reservation of
                  None \<Rightarrow> d1
                | Some lid \<Rightarrow> d1\<lparr>lockers := update_locker_status (lockers d1) AVAILABLE lid\<rparr>);
          startTime = start_time reservation;
          endTime = release_clock env;
          hours = totalHours startTime endTime;
          historyId = new_history_id env
      in if reservation_history d2 historyId \<noteq> None \<or> reservations d2 rid = None
            \<or> \<not> fits_int4 hours
         then (Inl failed_release, d)
         else (Inr (),
               d2\<lparr>reservation_history := (reservation_history d2)(historyId \<mapsto>
                    \<lparr>h_reservation_id = Some rid, h_start_time = start_time reservation,
                     h_end_time = endTime, h_total_hours = Some hours,
                     h_total_cost = total_cost reservation\<rparr>)\<rparr>))"

text \<open>
  The handler, run with no other request in between its statements. The reservation
  id is a route parameter, hence always present.
\<close>

definition releaseLocker ::
  "db \<Rightarrow> idparam \<Rightarrow> uuid option \<Rightarrow> release_env \<Rightarrow> (failure + unit) \<times> db" where
  "releaseLocker d reservationId userId env =
     (case reservationId of
        IdMalformed \<Rightarrow> (Inl failed_release, d)
      | Id rid \<Rightarrow>
          (case release_query d rid userId of
             None \<Rightarrow> (Inl active_not_found, d)
           | Some reservation \<Rightarrow> release_transaction d rid reservation env))"


section \<open>\<^verbatim>\<open>verifyOTP\<close>\<close>

text \<open>
  The row filter of the \<^verbatim>\<open>SELECT\<close>, at the database time \<open>now\<close>:
  \<^verbatim>\<open>phone = $1 AND code = $2 AND purpose = $3 AND expires_at > NOW() AND is_used = false\<close>.
\<close>

definition otp_matches :: "string \<Rightarrow> string \<Rightarrow> string \<Rightarrow> timestamp \<Rightarrow> verification_code \<Rightarrow> bool" where
  "otp_matches ph otp purp now r =
     (phone r = ph \<and> code r = otp \<and> purpose r = Some purp \<and> now < expires_at r
      \<and> is_used r = Some False)"

text \<open>\<^verbatim>\<open>UPDATE verification_codes SET is_used = true WHERE code_id = $1\<close>.\<close>

definition mark_used :: "uuid \<Rightarrow> verification_code list \<Rightarrow> verification_code list" where
  "mark_used cid rows = map (\<lambda>r. if code_id r = cid then r\<lparr>is_used := Some True\<rparr> else r) rows"

text \<open>
  The function, run with no other call in between its two statements. Both
  statements go to the pool, in no transaction; the row marked is the first that
  the \<^verbatim>\<open>SELECT\<close> returned. The result is the boolean and the new store.
\<close>

definition verifyOTP :: "db \<Rightarrow> string \<Rightarrow> string \<Rightarrow> string \<Rightarrow> timestamp \<Rightarrow> bool \<times> db" where
  "verifyOTP d ph otp purp now =
     (case filter (otp_matches ph otp purp now) (verification_codes d) of
        [] \<Rightarrow> (False, d)
      | row # _ \<Rightarrow>
          (True, d\<lparr>verification_codes := mark_used (code_id row) (verification_codes d)\<rparr>))"

text \<open>
  Two calls whose \<^verbatim>\<open>SELECT\<close> statements both come before either \<^verbatim>\<open>UPDATE\<close>: each
  \<^verbatim>\<open>await\<close> is a round trip of its own, so both calls read the store \<open>d\<close>; the
  updates then run one after the other. The result is the two booleans and the final
  store.
\<close>

definition verifyOTP_interleaved ::
  "db \<Rightarrow> string \<Rightarrow> string \<Rightarrow> string \<Rightarrow> timestamp \<Rightarrow> string \<Rightarrow> string \<Rightarrow> string \<Rightarrow> timestamp
     \<Rightarrow> (bool \<times> bool) \<times> db" where
  "verifyOTP_interleaved d ph1 otp1 purp1 now1 ph2 otp2 purp2 now2 =
     (let rows1 = filter (otp_matches ph1 otp1 purp1 now1) (verification_codes d);
          rows2 = filter (otp_matches ph2 otp2 purp2 now2) (verification_codes d);
          (res1, d1) = (case rows1 of
                          [] \<Rightarrow> (False, d)
                        | row # _ \<Rightarrow>
                            (True, d\<lparr>verification_codes :=
                                       mark_used (code_id row) (verification_codes d)\<rparr>));
          (res2, d2) = (case rows2 of
                          [] \<Rightarrow> (False, d1)
                        | row # _ \<Rightarrow>
                            (True, d1\<lparr>verification_codes :=
                                        mark_used (code_id row) (verification_codes d1)\<rparr>))
      in ((res1, res2), d2))"


section \<open>The pricing rules as the specification words them\<close>

text \<open>
  \<open>initialCost(basePrice, durationHours) = basePrice \<times> ceil(durationHours)\<close> and
  \<open>extensionCost(basePrice, additionalHours) = basePrice \<times> ceil(additionalHours)\<close>, on
  prices in hundredths.
\<close>

definition spec_initialCost :: "int \<Rightarrow> rat \<Rightarrow> int" where
  "spec_initialCost basePrice durationHours = basePrice * \<lceil>durationHours\<rceil>"

definition spec_extensionCost :: "int \<Rightarrow> rat \<Rightarrow> int" where
  "spec_extensionCost basePrice additionalHours = basePrice * \<lceil>additionalHours\<rceil>"


text \<open>
  The end time that an extension starts from, in the words of the specification:
  \<open>max(extended_end_time, expected_end_time)\<close>, a column that is not set being left
  out.
\<close>

definition spec_current_end :: "reservation \<Rightarrow> timestamp" where
  "spec_current_end r =
     (case (extended_end_time r, expected_end_time r) of
        (Some x, Some e) \<Rightarrow> max x e
      | (Some x, None) \<Rightarrow> x
      | (None, Some e) \<Rightarrow> e
      | (None, None) \<Rightarrow> 0)"

section \<open>Sequences of calls\<close>

text \<open>
  A client that extends the reservation \<open>rid\<close> once for each element of a list of
  \<^verbatim>\<open>additionalHours\<close>, with no other request in between: the final store if every
  call succeeds, \<open>None\<close> as soon as one fails.
\<close>

fun extend_all :: "db \<Rightarrow> uuid \<Rightarrow> uuid option \<Rightarrow> jsval list \<Rightarrow> db option" where
  "extend_all d rid userId [] = Some d"
| "extend_all d rid userId (h # hs) =
     (case extendReservation d (Some (Id rid)) h userId of
        (Inl f, d') \<Rightarrow> None
      | (Inr ok, d') \<Rightarrow> extend_all d' rid userId hs)"


section \<open>Example stores\<close>

text \<open>
  One small locker, number 1, at 10.00 per hour, available; no reservation yet.
\<close>

definition store0 :: db where
  "store0 =
     \<lparr>locker_sizes = [1 \<mapsto> \<lparr>size_name = Some ''SMALL'', base_price = Dec 1000\<rparr>],
      lockers = [1 \<mapsto> \<lparr>location_id = Some 1, size_id = Some 1, locker_code = ''A12'',
                        l_status = AVAILABLE\<rparr>],
      reservations = Map.empty,
      reservation_history = Map.empty,
      verification_codes = []\<rparr>"

definition env_a :: reserve_env where
  "env_a = \<lparr>random_value = 1 / 4, start_clock = 1000, end_clock = 1001,
            new_reservation_id = 1, created_clock = 999\<rparr>"

definition env_b :: reserve_env where
  "env_b = \<lparr>random_value = 3 / 4, start_clock = 1005, end_clock = 1005,
            new_reservation_id = 2, created_clock = 1004\<rparr>"

text \<open>The reservation that user 7 gets for three hours, as \<open>reserveLocker\<close> writes it.\<close>

definition reservation1 :: reservation where
  "reservation1 =
     \<lparr>user_id = Some 7, locker_id = Some 1, start_time = 1000,
      expected_end_time = Some 10801001, actual_end_time = None, r_status = ACTIVE,
      total_cost = Some (Dec 3000), access_code = Some 325000, extension_count = Some 0,
      extended_end_time = None, extension_cost = None, created_at = Some 999\<rparr>"

definition store1 :: db where
  "store1 =
     store0\<lparr>lockers := [1 \<mapsto> \<lparr>location_id = Some 1, size_id = Some 1, locker_code = ''A12'',
                                l_status = OCCUPIED\<rparr>],
            reservations := [1 \<mapsto> reservation1]\<rparr>"


text \<open>The reservation that user 8 gets for two hours from \<open>env_b\<close>.\<close>

definition reservation2 :: reservation where
  "reservation2 =
     \<lparr>user_id = Some 8, locker_id = Some 1, start_time = 1005,
      expected_end_time = Some 7201005, actual_end_time = None, r_status = ACTIVE,
      total_cost = Some (Dec 2000), access_code = Some 775000, extension_count = Some 0,
      extended_end_time = None, extension_cost = None, created_at = Some 1004\<rparr>"

text \<open>
  A release of reservation 1 that the database stamps one millisecond before the
  first hour is over, while the server reads its clock one millisecond after.
\<close>

definition env_release :: release_env where
  "env_release = \<lparr>completed_clock = 3600999, release_clock = 3601001, new_history_id = 5\<rparr>"

definition store_released :: db where
  "store_released =
     store0\<lparr>reservations := [1 \<mapsto> reservation1\<lparr>r_status := COMPLETED,
                                                 actual_end_time := Some 3600999\<rparr>],
            reservation_history :=
              [5 \<mapsto> \<lparr>h_reservation_id = Some 1, h_start_time = 1000, h_end_time = 3601001,
                      h_total_hours = Some 2, h_total_cost = Some (Dec 3000)\<rparr>]\<rparr>"

text \<open>Reservation 1 after user 7 has extended it by two hours.\<close>

definition reservation1_extended :: reservation where
  "reservation1_extended =
     reservation1\<lparr>extended_end_time := Some 18001001, extension_count := Some 1,
                  extension_cost := Some (Dec 2000), total_cost := Some (Dec 5000)\<rparr>"

definition store2 :: db where
  "store2 = store1\<lparr>reservations := [1 \<mapsto> reservation1_extended]\<rparr>"

text \<open>
  Reservation 1 after user 7 has then extended it by \<open>- 5\<close> hours: its extended end
  is earlier than its expected end.
\<close>

definition reservation1_back :: reservation where
  "reservation1_back =
     reservation1_extended\<lparr>extended_end_time := Some 1001, extension_count := Some 2,
                           extension_cost := Some (Dec (- 3000)), total_cost := Some (Dec 0)\<rparr>"

definition store_back :: db where
  "store_back = store2\<lparr>reservations := [1 \<mapsto> reservation1_back]\<rparr>"

text \<open>One login code issued to one phone, unused, which expires at 600000.\<close>

definition otp_row1 :: verification_code where
  "otp_row1 = \<lparr>code_id = 11, v_user_id = None, phone = ''+15550100'', code = ''123456'',
               purpose = Some ''LOGIN'', expires_at = 600000, is_used = Some False\<rparr>"

definition store_otp :: db where
  "store_otp = store0\<lparr>verification_codes := [otp_row1]\<rparr>"




section \<open>Facts about the handlers\<close>

subsection \<open>\<^verbatim>\<open>parseInt\<close> and \<^verbatim>\<open>reserveLocker\<close>\<close>

lemma parseInt_number_whole:
  assumes "q \<in> \<int>" "\<bar>q\<bar> < 10 ^ 21"
  shows "parseInt_number q = \<lceil>q\<rceil>"
proof (cases "q = 0")
  case True
  then show ?thesis by (simp add: parseInt_number_def)
next
  case False
  from assms(1) obtain z :: int where z: "q = of_int z" by (auto elim: Ints_cases)
  with False have "z \<noteq> 0" by auto
  then have "1 \<le> \<bar>z\<bar>" by arith
  then have "(1::rat) \<le> \<bar>q\<bar>" unfolding z by (metis of_int_abs of_int_1_le_iff)
  moreover have "(1::rat) / 10 ^ 6 \<le> 1" by simp
  ultimately have "1 / 10 ^ 6 \<le> \<bar>q\<bar>" by linarith
  with assms(2) False show ?thesis
    by (simp add: parseInt_number_def z)
qed

lemma lockerQuery_Some:
  "lockerQuery d lid = Some (l, price) \<longleftrightarrow>
     (lockers d lid = Some l \<and> l_status l = AVAILABLE \<and>
      (\<exists>sid ls. size_id l = Some sid \<and> locker_sizes d sid = Some ls \<and> base_price ls = price))"
  by (auto simp: lockerQuery_def split: option.splits)

lemma reserve_check_Inr:
  "reserve_check d lockerId duration = Inr (lid, price) \<longleftrightarrow>
     (lockerId = Some (Id lid) \<and> truthy duration \<and> (\<exists>l. lockerQuery d lid = Some (l, price)))"
  by (auto simp: reserve_check_def split: option.splits idparam.splits)

lemma reserve_transaction_failure:
  "reserve_transaction d lid price duration userId env = (Inl f, d') \<Longrightarrow> d' = d \<and> f = failed_reserve"
  by (auto simp: reserve_transaction_def Let_def split: option.splits if_splits)

lemma reserve_transaction_success:
  assumes "reserve_transaction d lid price duration userId env = (Inr ok, d')"
  shows "\<exists>h l. parseInt duration = Some h \<and> lockers d lid = Some l
          \<and> fits_decimal (js_times price (Some h))
          \<and> fits_timestamp (start_clock env) \<and> valid_date (end_clock env)
          \<and> fits_timestamp (end_clock env + h * 3600000)
          \<and> reservations d (new_reservation_id env) = None
          \<and> ok_expiresAt ok = end_clock env + h * 3600000
          \<and> ok_accessCode ok = \<lfloor>100000 + random_value env * 900000\<rfloor>
          \<and> ok_reservation ok =
               \<lparr>user_id = userId, locker_id = Some lid, start_time = start_clock env,
                expected_end_time = Some (end_clock env + h * 3600000), actual_end_time = None,
                r_status = ACTIVE, total_cost = Some (js_times price (Some h)),
                access_code = Some \<lfloor>100000 + random_value env * 900000\<rfloor>,
                extension_count = Some 0, extended_end_time = None, extension_cost = None,
                created_at = Some (created_clock env)\<rparr>
          \<and> d' = d\<lparr>lockers := (lockers d)(lid \<mapsto> l\<lparr>l_status := OCCUPIED\<rparr>),
                    reservations := (reservations d)(new_reservation_id env \<mapsto> ok_reservation ok)\<rparr>"
  using assms
  by (cases "parseInt duration"; cases "lockers d lid")
     (auto simp: reserve_transaction_def Let_def update_locker_status_def split: if_splits)

lemma reserve_transaction_succeeds:
  assumes "parseInt duration = Some h" "lockers d lid = Some l"
    "fits_decimal (js_times price (Some h))" "reservations d (new_reservation_id env) = None"
    "fits_timestamp (start_clock env)" "valid_date (end_clock env)"
    "fits_timestamp (end_clock env + h * 3600000)"
    "0 \<le> random_value env" "random_value env < 1"
  shows "\<exists>ok d'. reserve_transaction d lid price duration userId env = (Inr ok, d')"
proof -
  have "(0 :: rat) \<le> random_value env * 900000"
    using assms(8) by simp
  then have lo: "0 \<le> \<lfloor>random_value env * 900000\<rfloor>"
    by (simp only: zero_le_floor)
  have "random_value env * 900000 < of_int 900000"
    using assms(9) by simp
  then have hi: "\<lfloor>random_value env * 900000\<rfloor> < 900000"
    by (simp only: floor_less_iff)
  have "\<lfloor>100000 + random_value env * 900000\<rfloor> = 100000 + \<lfloor>random_value env * 900000\<rfloor>"
    by simp
  with lo hi have "fits_access_code \<lfloor>100000 + random_value env * 900000\<rfloor>"
    unfolding fits_access_code_def by linarith
  with assms(1-7) show ?thesis
    by (simp add: reserve_transaction_def Let_def update_locker_status_def fits_timestamp_def
        del: floor_add_int floor_add2)
qed

lemma parseInt_number_positional:
  "1 / 10 ^ 6 \<le> \<bar>q\<bar> \<Longrightarrow> \<bar>q\<bar> < 10 ^ 21 \<Longrightarrow>
     parseInt_number q = (if 0 \<le> q then \<lfloor>q\<rfloor> else \<lceil>q\<rceil>)"
  by (auto simp: parseInt_number_def)


subsection \<open>\<^verbatim>\<open>releaseLocker\<close>\<close>

lemma release_query_Some:
  "release_query d rid u = Some r \<longleftrightarrow>
     (reservations d rid = Some r \<and> u \<noteq> None \<and> user_id r = u \<and> r_status r = ACTIVE)"
  by (auto simp: release_query_def split: option.splits)


lemma release_transaction_success:
  assumes "release_transaction d rid r env = (Inr ok, d')" "reservations d rid = Some r"
  shows "reservation_history d (new_history_id env) = None
     \<and> fits_int4 (totalHours (start_time r) (release_clock env))
     \<and> reservations d' = (reservations d)(rid \<mapsto>
          r\<lparr>r_status := COMPLETED, actual_end_time := Some (completed_clock env)\<rparr>)
     \<and> lockers d' = (case locker_id r of None \<Rightarrow> lockers d
                      | Some lid \<Rightarrow> update_locker_status (lockers d) AVAILABLE lid)
     \<and> reservation_history d' = (reservation_history d)(new_history_id env \<mapsto>
          \<lparr>h_reservation_id = Some rid, h_start_time = start_time r,
           h_end_time = release_clock env,
           h_total_hours = Some (totalHours (start_time r) (release_clock env)),
           h_total_cost = total_cost r\<rparr>)
     \<and> locker_sizes d' = locker_sizes d \<and> verification_codes d' = verification_codes d"
  using assms
  by (cases "locker_id r") (auto simp: release_transaction_def Let_def split: if_splits)


lemma releaseLocker_success:
  assumes "releaseLocker d p u env = (Inr ok, d')"
  shows "\<exists>rid r. p = Id rid \<and> release_query d rid u = Some r
           \<and> release_transaction d rid r env = (Inr ok, d')"
  using assms by (auto simp: releaseLocker_def split: idparam.splits option.splits)


subsection \<open>\<^verbatim>\<open>extendReservation\<close>\<close>

lemma reservationQuery_Some:
  "reservationQuery d rid u = Some (r, price) \<longleftrightarrow>
     (reservations d rid = Some r \<and> u \<noteq> None \<and> user_id r = u \<and> r_status r = ACTIVE \<and>
      (\<exists>lid l sid ls. locker_id r = Some lid \<and> lockers d lid = Some l \<and> size_id l = Some sid
          \<and> locker_sizes d sid = Some ls \<and> base_price ls = price))"
  by (auto simp: reservationQuery_def split: option.splits)

lemma updateQuery_Some:
  assumes "updateQuery d t a c rid = Some (row, d')" "reservations d rid = Some r"
  shows "\<exists>e. t = Some e \<and> fits_timestamp e
     \<and> row = Some (r\<lparr>extended_end_time := Some e,
                      extension_count := map_option (\<lambda>n. n + 1) (extension_count r),
                      extension_cost := Some (js_plus (case extension_cost r of None \<Rightarrow> Dec 0
                                                       | Some x \<Rightarrow> x) a),
                      total_cost := Some c\<rparr>)
     \<and> d' = d\<lparr>reservations := (reservations d)(rid \<mapsto> the row)\<rparr>"
  using assms by (auto simp: updateQuery_def Let_def split: option.splits if_splits)

lemma extend_failure:
  "extendReservation d p h u = (Inl f, d') \<Longrightarrow>
     d' = d \<and> (f = required_extend \<or> f = active_not_found \<or> f = failed_extend)"
  by (auto simp: extendReservation_def Let_def split: option.splits idparam.splits if_splits prod.splits)

lemma extend_success:
  assumes "extendReservation d p h u = (Inr ok, d')"
  shows "\<exists>rid r price n. p = Some (Id rid) \<and> truthy h
     \<and> reservationQuery d rid u = Some (r, price) \<and> parseInt h = Some n
     \<and> d' = d\<lparr>reservations := (reservations d)(rid \<mapsto>
          r\<lparr>extended_end_time := Some (current_end r + n * 3600000),
            extension_count := map_option (\<lambda>n. n + 1) (extension_count r),
            extension_cost := Some (js_plus (case extension_cost r of None \<Rightarrow> Dec 0
                                             | Some x \<Rightarrow> x) (js_times price (Some n))),
            total_cost := Some (js_plus (parseFloat (total_cost r))
                                  (js_times price (Some n)))\<rparr>)\<rparr>"
proof -
  from assms obtain rid where p: "p = Some (Id rid)" and th: "truthy h"
    by (auto simp: extendReservation_def split: option.splits idparam.splits if_splits)
  with assms obtain r price where q: "reservationQuery d rid u = Some (r, price)"
    by (auto simp: extendReservation_def split: option.splits)
  then have r: "reservations d rid = Some r" by (simp add: reservationQuery_Some)
  from assms p th q obtain row where
    upd: "updateQuery d (setHours (current_end r) (parseInt h)) (js_times price (parseInt h))
            (js_plus (parseFloat (total_cost r)) (js_times price (parseInt h))) rid
          = Some (row, d')"
    by (auto simp: extendReservation_def Let_def split: option.splits)
  from updateQuery_Some [OF upd r] obtain e where
    e: "setHours (current_end r) (parseInt h) = Some e" and
    rest: "row = Some (r\<lparr>extended_end_time := Some e,
                      extension_count := map_option (\<lambda>n. n + 1) (extension_count r),
                      extension_cost := Some (js_plus (case extension_cost r of None \<Rightarrow> Dec 0
                                                       | Some x \<Rightarrow> x) (js_times price (parseInt h))),
                      total_cost := Some (js_plus (parseFloat (total_cost r)) (js_times price (parseInt h)))\<rparr>)"
      "d' = d\<lparr>reservations := (reservations d)(rid \<mapsto> the row)\<rparr>"
    by blast
  from e obtain n where n: "parseInt h = Some n" "e = current_end r + n * 3600000"
    by (cases "parseInt h") (auto split: if_splits)
  from p th q n rest show ?thesis by simp
qed

lemma extend_success_row:
  assumes "extendReservation d (Some (Id rid)) h u = (Inr ok, d')" "reservations d rid = Some r"
  shows "\<exists>price n r'. reservationQuery d rid u = Some (r, price) \<and> parseInt h = Some n
     \<and> reservations d' = (reservations d)(rid \<mapsto> r')
     \<and> lockers d' = lockers d \<and> locker_sizes d' = locker_sizes d
     \<and> reservation_history d' = reservation_history d
     \<and> verification_codes d' = verification_codes d
     \<and> r' = r\<lparr>extended_end_time := Some (current_end r + n * 3600000),
              extension_count := map_option (\<lambda>n. n + 1) (extension_count r),
              extension_cost := Some (js_plus (case extension_cost r of None \<Rightarrow> Dec 0
                                               | Some x \<Rightarrow> x) (js_times price (Some n))),
              total_cost := Some (js_plus (parseFloat (total_cost r))
                                    (js_times price (Some n)))\<rparr>
     \<and> reservationQuery d' rid u = Some (r', price)"
proof -
  from extend_success [OF assms(1)] obtain r0 price n where
    q: "reservationQuery d rid u = Some (r0, price)" and n: "parseInt h = Some n" and
    d': "d' = d\<lparr>reservations := (reservations d)(rid \<mapsto>
          r0\<lparr>extended_end_time := Some (current_end r0 + n * 3600000),
            extension_count := map_option (\<lambda>n. n + 1) (extension_count r0),
            extension_cost := Some (js_plus (case extension_cost r0 of None \<Rightarrow> Dec 0
                                             | Some x \<Rightarrow> x) (js_times price (Some n))),
            total_cost := Some (js_plus (parseFloat (total_cost r0))
                                  (js_times price (Some n)))\<rparr>)\<rparr>"
    by auto
  from q assms(2) have r0: "r0 = r" by (simp add: reservationQuery_Some)
  define r' where "r' = r\<lparr>extended_end_time := Some (current_end r + n * 3600000),
              extension_count := map_option (\<lambda>n. n + 1) (extension_count r),
              extension_cost := Some (js_plus (case extension_cost r of None \<Rightarrow> Dec 0
                                               | Some x \<Rightarrow> x) (js_times price (Some n))),
              total_cost := Some (js_plus (parseFloat (total_cost r))
                                    (js_times price (Some n)))\<rparr>"
  from d' r0 have d'': "d' = d\<lparr>reservations := (reservations d)(rid \<mapsto> r')\<rparr>"
    by (simp add: r'_def)
  from q r0 have "reservationQuery d' rid u = Some (r', price)"
    unfolding reservationQuery_Some d'' by (auto simp: r'_def)
  with q r0 n d'' show ?thesis
    by (intro exI [of _ price] exI [of _ n] exI [of _ r']) (simp add: r'_def)
qed

lemma current_end_extended:
  "extended_end_time r = Some t \<Longrightarrow> current_end r = t"
  by (simp add: current_end_def)

lemma extend_all_accrual:
  assumes "extend_all d rid u hs = Some d'" "reservations d rid = Some r"
  shows "\<exists>ns r'. map parseInt hs = map Some ns \<and> reservations d' rid = Some r'
     \<and> current_end r' = current_end r + sum_list ns * 3600000
     \<and> (hs \<noteq> [] \<longrightarrow> extended_end_time r' = Some (current_end r'))
     \<and> (hs = [] \<longrightarrow> r' = r)
     \<and> extension_count r' = map_option (\<lambda>c. c + int (length hs)) (extension_count r)
     \<and> (\<forall>p c. reservationQuery d rid u = Some (r, Dec p) \<and> total_cost r = Some (Dec c)
            \<longrightarrow> total_cost r' = Some (Dec (c + p * sum_list ns)))"
  using assms
proof (induction hs arbitrary: d r)
  case Nil
  then show ?case by (auto simp: option.map_ident intro: exI [of _ "[]"])
next
  case (Cons h hs)
  from Cons.prems(1) obtain ok d1 where
    step: "extendReservation d (Some (Id rid)) h u = (Inr ok, d1)" and
    rest: "extend_all d1 rid u hs = Some d'"
    by (auto split: prod.splits sum.splits)
  from extend_success_row [OF step Cons.prems(2)] obtain price n r1 where
    q: "reservationQuery d rid u = Some (r, price)" and n: "parseInt h = Some n" and
    tbl: "reservations d1 = (reservations d)(rid \<mapsto> r1)" and
    r1: "r1 = r\<lparr>extended_end_time := Some (current_end r + n * 3600000),
              extension_count := map_option (\<lambda>n. n + 1) (extension_count r),
              extension_cost := Some (js_plus (case extension_cost r of None \<Rightarrow> Dec 0
                                               | Some x \<Rightarrow> x) (js_times price (Some n))),
              total_cost := Some (js_plus (parseFloat (total_cost r))
                                    (js_times price (Some n)))\<rparr>" and
    q1: "reservationQuery d1 rid u = Some (r1, price)"
    by blast
  from tbl have r1_in: "reservations d1 rid = Some r1" by simp
  from Cons.IH [OF rest r1_in] obtain ns r' where
    ns: "map parseInt hs = map Some ns" and r': "reservations d' rid = Some r'" and
    e: "current_end r' = current_end r1 + sum_list ns * 3600000" and
    ext: "hs \<noteq> [] \<longrightarrow> extended_end_time r' = Some (current_end r')" and
    same: "hs = [] \<longrightarrow> r' = r1" and
    cnt: "extension_count r' = map_option (\<lambda>c. c + int (length hs)) (extension_count r1)" and
    cost: "\<forall>p c. reservationQuery d1 rid u = Some (r1, Dec p) \<and> total_cost r1 = Some (Dec c)
            \<longrightarrow> total_cost r' = Some (Dec (c + p * sum_list ns))"
    by blast
  have e1: "current_end r1 = current_end r + n * 3600000"
    by (simp add: r1 current_end_def)
  have ext1: "extended_end_time r1 = Some (current_end r1)"
    by (simp add: r1 current_end_def)
  have "map parseInt (h # hs) = map Some (n # ns)" using n ns by simp
  moreover have "current_end r' = current_end r + sum_list (n # ns) * 3600000"
    using e e1 by (simp add: algebra_simps)
  moreover have "extended_end_time r' = Some (current_end r')"
    using ext same ext1 by (cases "hs = []") auto
  moreover have "extension_count r' = map_option (\<lambda>c. c + int (length (h # hs))) (extension_count r)"
    using cnt by (cases "extension_count r") (simp_all add: r1)
  moreover have "total_cost r' = Some (Dec (c + p * sum_list (n # ns)))"
    if "reservationQuery d rid u = Some (r, Dec p)" "total_cost r = Some (Dec c)" for p c
  proof -
    from that(1) q have price: "price = Dec p" by simp
    with that(2) have "total_cost r1 = Some (Dec (c + p * n))" by (simp add: r1)
    with cost q1 price have "total_cost r' = Some (Dec (c + p * n + p * sum_list ns))" by simp
    then show ?thesis by (simp add: algebra_simps)
  qed
  ultimately show ?case using r' by (intro exI [of _ "n # ns"] exI [of _ r']) auto
qed

lemma extend_all_single:
  "extend_all d rid u [h] = Some d' \<longleftrightarrow>
     (\<exists>ok. extendReservation d (Some (Id rid)) h u = (Inr ok, d'))"
  by (auto split: prod.splits sum.splits)

lemma current_end_spec:
  assumes "\<forall>x e. extended_end_time r = Some x \<and> expected_end_time r = Some e \<longrightarrow> e \<le> x"
  shows "current_end r = spec_current_end r"
  using assms by (auto simp: current_end_def spec_current_end_def split: option.splits)

lemma parseInt_whole_list:
  assumes "map parseInt (map JNum qs) = map Some ns" "\<forall>q\<in>set qs. q \<in> \<int> \<and> \<bar>q\<bar> < 10 ^ 21"
  shows "p * sum_list ns = (\<Sum>q\<leftarrow>qs. spec_extensionCost p q)"
  using assms
proof (induction qs arbitrary: ns)
  case Nil
  then show ?case by simp
next
  case (Cons q qs)
  then obtain n ns' where ns: "ns = n # ns'" by (cases ns) auto
  with Cons.prems have "n = \<lceil>q\<rceil>" "map parseInt (map JNum qs) = map Some ns'"
    by (simp_all add: parseInt_number_whole)
  with Cons.IH [of ns'] Cons.prems(2) ns show ?case
    by (simp add: spec_extensionCost_def algebra_simps)
qed

text \<open>The handler is its two round trips, one after the other.\<close>

lemma extendReservation_phases:
  "extendReservation d reservationId additionalHours userId =
     (case extend_select d reservationId additionalHours userId of
        Inl f \<Rightarrow> (Inl f, d)
      | Inr ps \<Rightarrow> extend_update d ps)"
  by (simp add: extendReservation_def extend_select_def extend_update_def Let_def
      split: option.splits idparam.splits prod.splits)


subsection \<open>\<^verbatim>\<open>verifyOTP\<close>\<close>

lemma verifyOTP_true_iff:
  "fst (verifyOTP d ph otp purp now) \<longleftrightarrow>
     (\<exists>r\<in>set (verification_codes d). otp_matches ph otp purp now r)"
proof (cases "filter (otp_matches ph otp purp now) (verification_codes d)")
  case Nil
  then show ?thesis by (auto simp: verifyOTP_def filter_empty_conv)
next
  case (Cons row rows)
  then have "row \<in> set (filter (otp_matches ph otp purp now) (verification_codes d))" by simp
  then have "row \<in> set (verification_codes d)" "otp_matches ph otp purp now row" by simp_all
  moreover from Cons have "fst (verifyOTP d ph otp purp now)" by (simp add: verifyOTP_def)
  ultimately show ?thesis by blast
qed

lemma verifyOTP_true:
  assumes "fst (verifyOTP d ph otp purp now)"
  shows "\<exists>row\<in>set (verification_codes d). otp_matches ph otp purp now row
     \<and> snd (verifyOTP d ph otp purp now) =
         d\<lparr>verification_codes := mark_used (code_id row) (verification_codes d)\<rparr>"
proof (cases "filter (otp_matches ph otp purp now) (verification_codes d)")
  case Nil
  with assms show ?thesis by (simp add: verifyOTP_def)
next
  case (Cons row rows)
  then have "row \<in> set (filter (otp_matches ph otp purp now) (verification_codes d))" by simp
  then have "row \<in> set (verification_codes d)" "otp_matches ph otp purp now row" by simp_all
  with Cons show ?thesis by (auto simp: verifyOTP_def)
qed

lemma verifyOTP_false:
  "\<not> fst (verifyOTP d ph otp purp now) \<Longrightarrow> snd (verifyOTP d ph otp purp now) = d"
  by (cases "filter (otp_matches ph otp purp now) (verification_codes d)")
     (simp_all add: verifyOTP_def)

lemma mark_row_matches:
  "otp_matches ph otp purp now (if code_id r = cid then r\<lparr>is_used := Some True\<rparr> else r) \<longleftrightarrow>
     code_id r \<noteq> cid \<and> otp_matches ph otp purp now r"
  by (simp add: otp_matches_def)

lemma mark_used_matches:
  "(\<exists>r\<in>set (mark_used cid rows). otp_matches ph otp purp now r) \<longleftrightarrow>
     (\<exists>r\<in>set rows. code_id r \<noteq> cid \<and> otp_matches ph otp purp now r)"
  unfolding mark_used_def set_map bex_simps by (simp only: mark_row_matches)

lemma mark_row_used:
  "code_id (if code_id r = cid then r\<lparr>is_used := Some True\<rparr> else r) = cid \<longrightarrow>
     is_used (if code_id r = cid then r\<lparr>is_used := Some True\<rparr> else r) = Some True"
  by simp

lemma mark_used_used:
  "\<forall>r\<in>set (mark_used cid rows). code_id r = cid \<longrightarrow> is_used r = Some True"
  unfolding mark_used_def set_map ball_simps by (intro ballI mark_row_used)


section \<open>The handlers on the example stores\<close>

lemma parseInt_number_3: "parseInt_number 3 = 3"
  by code_simp

lemma parseInt_number_2: "parseInt_number 2 = 2"
  by code_simp

lemma parseInt_number_frac: "parseInt_number (5 / 2) = 2"
  by code_simp

lemma parseInt_number_neg: "parseInt_number (- 5) = - 5"
  by code_simp

lemma access_code_a: "\<lfloor>100000 + (1 / 4 :: rat) * 900000\<rfloor> = 325000"
  by code_simp

lemma access_code_b: "\<lfloor>100000 + (3 / 4 :: rat) * 900000\<rfloor> = 775000"
  by code_simp

lemmas example_defs = store0_def store1_def env_a_def env_b_def reservation1_def reservation2_def
  reservation1_extended_def store2_def reservation1_back_def store_back_def otp_row1_def
  store_otp_def
  env_release_def store_released_def

lemmas reserve_defs = reserveLocker_def reserve_check_def lockerQuery_def reserve_transaction_def
  update_locker_status_def valid_date_def fits_timestamp_def fits_access_code_def Let_def

lemma reserve_store0:
  "reserveLocker store0 (Some (Id 1)) (JNum 3) (Some 7) env_a =
     (Inr \<lparr>ok_reservation = reservation1, ok_accessCode = 325000, ok_expiresAt = 10801001\<rparr>,
      store1)"
  by (simp add: reserve_defs example_defs parseInt_number_3 access_code_a)

lemma totalHours_1: "totalHours 1000 3601001 = 2"
  by code_simp


lemma fits_2: "fits_int4 2"
  by (simp add: fits_int4_def)

lemmas release_defs = releaseLocker_def release_query_def release_transaction_def
  update_locker_status_def Let_def

lemma release_store1:
  "releaseLocker store1 (Id 1) (Some 7) env_release = (Inr (), store_released)"
  by (simp add: release_defs example_defs totalHours_1 fits_2)

lemma parseInt_number_1: "parseInt_number 1 = 1"
  by code_simp

lemma parseInt_number_half: "parseInt_number (3 / 2) = 1"
  by code_simp

lemmas extend_defs = extendReservation_def reservationQuery_def updateQuery_def current_end_def
  active_not_found_def required_extend_def valid_date_def fits_timestamp_def Let_def

lemma extend_store1:
  "extendReservation store1 (Some (Id 1)) (JNum 2) (Some 7) =
     (Inr \<lparr>ok_updated = Some reservation1_extended, ok_additionalCost = Dec 2000,
           ok_newEndTime = Some 18001001\<rparr>, store2)"
  by (simp add: extend_defs example_defs parseInt_number_2 fits_int4_def)

lemma extend_store2:
  "extendReservation store2 (Some (Id 1)) (JNum 1) (Some 7) =
     (Inr \<lparr>ok_updated = Some (reservation1_extended\<lparr>extended_end_time := Some 21601001,
              extension_count := Some 2, extension_cost := Some (Dec 3000),
              total_cost := Some (Dec 6000)\<rparr>),
           ok_additionalCost = Dec 1000, ok_newEndTime = Some 21601001\<rparr>,
      store2\<lparr>reservations := [1 \<mapsto> reservation1_extended\<lparr>extended_end_time := Some 21601001,
              extension_count := Some 2, extension_cost := Some (Dec 3000),
              total_cost := Some (Dec 6000)\<rparr>]\<rparr>)"
  by (simp add: extend_defs example_defs parseInt_number_1 fits_int4_def)

lemma extend_all_store1:
  "extend_all store1 1 (Some 7) [JNum 2, JNum 1] =
     Some (store2\<lparr>reservations := [1 \<mapsto> reservation1_extended\<lparr>extended_end_time := Some 21601001,
              extension_count := Some 2, extension_cost := Some (Dec 3000),
              total_cost := Some (Dec 6000)\<rparr>]\<rparr>)"
  by (simp add: extend_store1 extend_store2 del: One_nat_def)

lemma reserve_store_released:
  "reserveLocker store_released (Some (Id 1)) (JNum 2) (Some 8) env_b =
     (Inr \<lparr>ok_reservation = reservation2, ok_accessCode = 775000, ok_expiresAt = 7201005\<rparr>,
      store_released\<lparr>lockers := lockers store1,
        reservations := (reservations store_released)(2 \<mapsto> reservation2)\<rparr>)"
  by (simp add: reserve_defs example_defs parseInt_number_2 access_code_b)

lemma extend_store_back:
  "extendReservation store2 (Some (Id 1)) (JNum (- 5)) (Some 7) =
     (Inr \<lparr>ok_updated = Some reservation1_back, ok_additionalCost = Dec (- 5000),
           ok_newEndTime = Some 1001\<rparr>, store_back)"
  by (simp add: extend_defs example_defs parseInt_number_neg fits_int4_def)

text \<open>
  Two extensions of reservation 1, by 3 hours and by 1 hour, whose \<^verbatim>\<open>SELECT\<close>
  statements both come before either \<^verbatim>\<open>UPDATE\<close>: both succeed and the count is 2, but
  the second \<^verbatim>\<open>UPDATE\<close> writes the end and the total that it computed from the row as
  first read. The end goes from 21601001 back to 14401001, one hour after the
  expected end, and the total is 40.00, while the extension cost is 40.00 on top of
  the initial 30.00.
\<close>

lemma extend_interleaved_store1:
  "extend_interleaved store1 (Some (Id 1)) (JNum 3) (Some 7) (Some (Id 1)) (JNum 1) (Some 7) =
     ((Inr \<lparr>ok_updated = Some (reservation1\<lparr>extended_end_time := Some 21601001,
                extension_count := Some 1, extension_cost := Some (Dec 3000),
                total_cost := Some (Dec 6000)\<rparr>),
             ok_additionalCost = Dec 3000, ok_newEndTime = Some 21601001\<rparr>,
       Inr \<lparr>ok_updated = Some (reservation1\<lparr>extended_end_time := Some 14401001,
                extension_count := Some 2, extension_cost := Some (Dec 4000),
                total_cost := Some (Dec 4000)\<rparr>),
             ok_additionalCost = Dec 1000, ok_newEndTime = Some 14401001\<rparr>),
      store1\<lparr>reservations := [1 \<mapsto> reservation1\<lparr>extended_end_time := Some 14401001,
                extension_count := Some 2, extension_cost := Some (Dec 4000),
                total_cost := Some (Dec 4000)\<rparr>]\<rparr>)"
  by (simp add: extend_interleaved_def extend_select_def extend_update_def extend_defs
      example_defs parseInt_number_3 parseInt_number_1 fits_int4_def del: One_nat_def)

text \<open>
  An infinite duration, which a body such as \<^verbatim>\<open>{"duration": 1e400}\<close> carries, passes
  the test for the required fields and fails in the transaction, on the invalid date.
\<close>

lemma reserve_infinite_duration:
  "reserveLocker store0 (Some (Id 1)) (JInfinity False) (Some 7) env_a =
     (Inl (500, ''Failed to reserve locker''), store0)"
  by (simp add: reserve_defs example_defs failed_reserve_def)

text \<open>The numbers that JavaScript prints as \<^verbatim>\<open>1e+23\<close>, \<^verbatim>\<open>0.000001\<close> and \<^verbatim>\<open>5e-7\<close>.\<close>

lemma parseInt_printed_1e23: "parseInt (JNum (10 ^ 23)) = Some 1"
  by (simp add: parseInt_number_def)

lemma parseInt_printed_millionth: "parseInt (JNum (1 / 10 ^ 6)) = Some 0"
  by code_simp

lemma quotient_5e7: "quotient_of (5 / 10 ^ 7 :: rat) = (1, 2000000)"
  by code_simp

lemma parseInt_printed_5e7: "parseInt (JNum (5 / 10 ^ 7)) = Some 5"
  using quotient_5e7 by (simp add: parseInt_number_def)

lemmas verify_defs = verifyOTP_def verifyOTP_interleaved_def otp_matches_def mark_used_def

lemma verify_store_otp:
  "verifyOTP store_otp ''+15550100'' ''123456'' ''LOGIN'' 1000 =
     (True, store_otp\<lparr>verification_codes := [otp_row1\<lparr>is_used := Some True\<rparr>]\<rparr>)"
  by (simp add: verify_defs example_defs)

lemma verify_store_otp_again:
  "verifyOTP (store_otp\<lparr>verification_codes := [otp_row1\<lparr>is_used := Some True\<rparr>]\<rparr>)
     ''+15550100'' ''123456'' ''LOGIN'' 1001 =
     (False, store_otp\<lparr>verification_codes := [otp_row1\<lparr>is_used := Some True\<rparr>]\<rparr>)"
  by (simp add: verify_defs example_defs)


section \<open>Claims\<close>

subsection \<open>C1: two reservations of one locker\<close>

text \<open>
  C1 says that of two concurrent reservations of the same available locker exactly
  one succeeds, because the status is checked again inside the transaction. In the
  handler the only check is the availability query, which runs before the
  transaction, and the transaction sets the locker \<^verbatim>\<open>OCCUPIED\<close> without a
  condition. When both availability queries run before either transaction, both
  requests succeed: users 7 and 8 each hold an \<^verbatim>\<open>ACTIVE\<close> reservation of locker 1.
\<close>

theorem reserve_race_double_booking:
  "reserve_interleaved store0 (Some (Id 1)) (JNum 3) (Some 7) env_a
       (Some (Id 1)) (JNum 2) (Some 8) env_b =
     ((Inr \<lparr>ok_reservation = reservation1, ok_accessCode = 325000, ok_expiresAt = 10801001\<rparr>,
       Inr \<lparr>ok_reservation = reservation2, ok_accessCode = 775000, ok_expiresAt = 7201005\<rparr>),
      store1\<lparr>reservations := [1 \<mapsto> reservation1, 2 \<mapsto> reservation2]\<rparr>)
   \<and> r_status reservation1 = ACTIVE \<and> r_status reservation2 = ACTIVE
   \<and> locker_id reservation1 = Some 1 \<and> locker_id reservation2 = Some 1"
  by (simp add: reserve_interleaved_def reserve_defs example_defs parseInt_number_3
      parseInt_number_2 access_code_a access_code_b)


subsection \<open>C2: what a release writes\<close>





subsection \<open>C3: the initial cost\<close>

text \<open>
  C3, as amended: the reservation that a successful \<open>reserveLocker\<close> stores has as
  \<open>total_cost\<close> the base price that the availability query returned times
  \<^verbatim>\<open>parseInt(duration)\<close>, a whole number of hours. For a number \<open>q\<close> with
  \<open>10\<^sup>-\<^sup>6 \<le> \<bar>q\<bar> < 10\<^sup>2\<^sup>1\<close>, which JavaScript prints without an exponent, that whole
  number is \<open>q\<close> truncated toward zero; so for a whole number below \<open>10\<^sup>2\<^sup>1\<close> in
  absolute value the cost is the base price times \<open>ceil(duration)\<close>.
\<close>

theorem reserve_initial_cost:
  assumes "reserveLocker d lockerId duration userId env = (Inr ok, d')"
  shows "\<exists>lid locker price h.
           lockerId = Some (Id lid) \<and> lockerQuery d lid = Some (locker, price)
         \<and> parseInt duration = Some h
         \<and> reservations d' (new_reservation_id env) = Some (ok_reservation ok)
         \<and> total_cost (ok_reservation ok) = Some (js_times price (Some h))
         \<and> (\<forall>p. price = Dec p \<longrightarrow> total_cost (ok_reservation ok) = Some (Dec (p * h)))
         \<and> (\<forall>p q. price = Dec p \<and> duration = JNum q \<and> 1 / 10 ^ 6 \<le> \<bar>q\<bar> \<and> \<bar>q\<bar> < 10 ^ 21 \<longrightarrow>
                total_cost (ok_reservation ok) =
                  Some (Dec (p * (if 0 \<le> q then \<lfloor>q\<rfloor> else \<lceil>q\<rceil>))))
         \<and> (\<forall>p q. price = Dec p \<and> duration = JNum q \<and> q \<in> \<int> \<and> \<bar>q\<bar> < 10 ^ 21 \<longrightarrow>
                total_cost (ok_reservation ok) = Some (Dec (spec_initialCost p q)))"
proof -
  from assms obtain lid price where chk: "reserve_check d lockerId duration = Inr (lid, price)"
    and tx: "reserve_transaction d lid price duration userId env = (Inr ok, d')"
    by (auto simp: reserveLocker_def split: sum.splits)
  from chk obtain locker where lk: "lockerId = Some (Id lid)"
    "lockerQuery d lid = Some (locker, price)"
    by (auto simp: reserve_check_Inr)
  from reserve_transaction_success [OF tx] obtain h l where h: "parseInt duration = Some h"
    and row: "ok_reservation ok =
               \<lparr>user_id = userId, locker_id = Some lid, start_time = start_clock env,
                expected_end_time = Some (end_clock env + h * 3600000), actual_end_time = None,
                r_status = ACTIVE, total_cost = Some (js_times price (Some h)),
                access_code = Some \<lfloor>100000 + random_value env * 900000\<rfloor>,
                extension_count = Some 0, extended_end_time = None, extension_cost = None,
                created_at = Some (created_clock env)\<rparr>"
    and d': "d' = d\<lparr>lockers := (lockers d)(lid \<mapsto> l\<lparr>l_status := OCCUPIED\<rparr>),
                    reservations := (reservations d)(new_reservation_id env \<mapsto> ok_reservation ok)\<rparr>"
    by blast
  have cost: "total_cost (ok_reservation ok) = Some (js_times price (Some h))"
    by (simp add: row)
  have whole: "total_cost (ok_reservation ok) = Some (Dec (spec_initialCost p q))"
    if "price = Dec p" "duration = JNum q" "q \<in> \<int>" "\<bar>q\<bar> < 10 ^ 21" for p q
  proof -
    from that h have "h = \<lceil>q\<rceil>" by (simp add: parseInt_number_whole)
    with cost that show ?thesis by (simp add: spec_initialCost_def)
  qed
  have positional: "total_cost (ok_reservation ok) =
                  Some (Dec (p * (if 0 \<le> q then \<lfloor>q\<rfloor> else \<lceil>q\<rceil>)))"
    if "price = Dec p" "duration = JNum q" "1 / 10 ^ 6 \<le> \<bar>q\<bar>" "\<bar>q\<bar> < 10 ^ 21" for p q
  proof -
    from that h have "h = (if 0 \<le> q then \<lfloor>q\<rfloor> else \<lceil>q\<rceil>)"
      by (simp add: parseInt_number_positional)
    with cost that(1) show ?thesis by simp
  qed
  have stored: "reservations d' (new_reservation_id env) = Some (ok_reservation ok)"
    by (simp add: d')
  have dec: "total_cost (ok_reservation ok) = Some (Dec (p * h))" if "price = Dec p" for p
    using cost that by simp
  from lk h stored cost dec positional whole show ?thesis
    by (intro exI [of _ lid] exI [of _ locker] exI [of _ price] exI [of _ h]) blast
qed

text \<open>The reservation of locker 1 for 3 hours at 10.00 costs 30.00.\<close>

theorem reserve_initial_cost_witness:
  "reserveLocker store0 (Some (Id 1)) (JNum 3) (Some 7) env_a =
     (Inr \<lparr>ok_reservation = reservation1, ok_accessCode = 325000, ok_expiresAt = 10801001\<rparr>,
      store1)
   \<and> lockerQuery store0 1 \<noteq> None \<and> parseInt (JNum 3) = Some 3
   \<and> (3 :: rat) \<in> \<int> \<and> 1 / 10 ^ 6 \<le> \<bar>3 :: rat\<bar> \<and> \<bar>3 :: rat\<bar> < 10 ^ 21
   \<and> total_cost reservation1 = Some (Dec (1000 * \<lfloor>3 :: rat\<rfloor>))
   \<and> total_cost reservation1 = Some (Dec (spec_initialCost 1000 3))"
proof -
  from reserve_initial_cost [OF reserve_store0]
  have "total_cost reservation1 = Some (Dec (spec_initialCost 1000 3))"
    by (auto simp: lockerQuery_Some store0_def)
  then show ?thesis
    using reserve_store0
    by (simp add: lockerQuery_def store0_def reservation1_def parseInt_number_3
        spec_initialCost_def)
qed

text \<open>
  A fractional duration is not rounded up: \<^verbatim>\<open>parseInt(2.5)\<close> is 2, and two and a half
  hours at 10.00 cost 20.00, not 30.00.
\<close>

theorem reserve_fractional_duration_counterexample:
  "fst (reserveLocker store0 (Some (Id 1)) (JNum (5 / 2)) (Some 7) env_a) =
     Inr \<lparr>ok_reservation = reservation1\<lparr>expected_end_time := Some 7201001,
                                         total_cost := Some (Dec 2000)\<rparr>,
          ok_accessCode = 325000, ok_expiresAt = 7201001\<rparr>
   \<and> Dec 2000 \<noteq> Dec (spec_initialCost 1000 (5 / 2))"
proof -
  have "\<lceil>5 / 2 :: rat\<rceil> = 3" by code_simp
  then show ?thesis
    by (simp add: reserve_defs example_defs parseInt_number_frac access_code_a spec_initialCost_def)
qed


subsection \<open>C4: what extensions accrue\<close>

text \<open>
  C4, as amended: when a client extends a reservation one or more times, one call
  after the other and with no other request in between, and every call succeeds,
  each call reads its hours with \<^verbatim>\<open>parseInt\<close>, and afterwards
  \<^item> \<open>extended_end_time\<close> is the end time before the first call, which is the extended
    end if set and else the expected end, plus the sum of the hours; that starting
    point is \<open>max(extended_end_time, expected_end_time)\<close> unless the extended end is
    set and earlier than the expected end;
  \<^item> \<open>extension_count\<close> has grown by the number of calls;
  \<^item> \<open>total_cost\<close> has grown by the base price times the sum of the hours, which
    for hours that are whole numbers below \<open>10\<^sup>2\<^sup>1\<close> in absolute value is the sum of
    \<open>basePrice \<times> ceil(additionalHours)\<close>.
  One call is the case of a list of one element (\<open>extend_all_single\<close>).
\<close>

theorem extend_accrual:
  assumes "extend_all d rid u hs = Some d'" and "reservations d rid = Some r" and "hs \<noteq> []"
  shows "\<exists>price ns r'.
       reservationQuery d rid u = Some (r, price)
     \<and> map parseInt hs = map Some ns
     \<and> reservations d' rid = Some r'
     \<and> extended_end_time r' = Some (current_end r + sum_list ns * 3600000)
     \<and> ((\<forall>x e. extended_end_time r = Some x \<and> expected_end_time r = Some e \<longrightarrow> e \<le> x)
          \<longrightarrow> current_end r = spec_current_end r)
     \<and> extension_count r' = map_option (\<lambda>c. c + int (length hs)) (extension_count r)
     \<and> (\<forall>p c. price = Dec p \<and> total_cost r = Some (Dec c) \<longrightarrow>
            total_cost r' = Some (Dec (c + p * sum_list ns)))
     \<and> (\<forall>p c qs. price = Dec p \<and> total_cost r = Some (Dec c) \<and> hs = map JNum qs
            \<and> (\<forall>q\<in>set qs. q \<in> \<int> \<and> \<bar>q\<bar> < 10 ^ 21) \<longrightarrow>
            total_cost r' = Some (Dec (c + (\<Sum>q\<leftarrow>qs. spec_extensionCost p q))))"
proof -
  from assms(3) obtain h hs' where hs: "hs = h # hs'" by (cases hs) auto
  with assms(1) obtain ok d1 where "extendReservation d (Some (Id rid)) h u = (Inr ok, d1)"
    by (auto split: prod.splits sum.splits)
  from extend_success_row [OF this assms(2)] obtain price where
    q: "reservationQuery d rid u = Some (r, price)" by blast
  from extend_all_accrual [OF assms(1,2)] obtain ns r' where
    ns: "map parseInt hs = map Some ns" and r': "reservations d' rid = Some r'" and
    e: "current_end r' = current_end r + sum_list ns * 3600000" and
    ext: "hs \<noteq> [] \<longrightarrow> extended_end_time r' = Some (current_end r')" and
    cnt: "extension_count r' = map_option (\<lambda>c. c + int (length hs)) (extension_count r)" and
    cost: "\<forall>p c. reservationQuery d rid u = Some (r, Dec p) \<and> total_cost r = Some (Dec c)
            \<longrightarrow> total_cost r' = Some (Dec (c + p * sum_list ns))"
    by blast
  have end': "extended_end_time r' = Some (current_end r + sum_list ns * 3600000)"
    using ext e assms(3) by simp
  have cost': "total_cost r' = Some (Dec (c + p * sum_list ns))"
    if "price = Dec p" "total_cost r = Some (Dec c)" for p c
    using cost q that by simp
  have whole: "total_cost r' = Some (Dec (c + (\<Sum>q\<leftarrow>qs. spec_extensionCost p q)))"
    if "price = Dec p" "total_cost r = Some (Dec c)" "hs = map JNum qs"
      "\<forall>q\<in>set qs. q \<in> \<int> \<and> \<bar>q\<bar> < 10 ^ 21" for p c qs
  proof -
    from ns that(3) have "map parseInt (map JNum qs) = map Some ns" by simp
    from parseInt_whole_list [OF this that(4)] cost' [OF that(1,2)] show ?thesis by simp
  qed
  from q ns r' end' cnt cost' whole current_end_spec [of r] show ?thesis
    by (intro exI [of _ price] exI [of _ ns] exI [of _ r']) blast
qed

text \<open>
  Reservation 1, at 30.00, extended by 2 hours and then by 1 hour at 10.00 per hour:
  the cost is 60.00 and the end is three hours later.
\<close>

theorem extend_accrual_witness:
  "extend_all store1 1 (Some 7) [JNum 2, JNum 1] =
     Some (store2\<lparr>reservations := [1 \<mapsto> reservation1_extended\<lparr>extended_end_time := Some 21601001,
              extension_count := Some 2, extension_cost := Some (Dec 3000),
              total_cost := Some (Dec 6000)\<rparr>]\<rparr>)
   \<and> reservations store1 1 = Some reservation1 \<and> [JNum 2, JNum 1] \<noteq> []
   \<and> reservationQuery store1 1 (Some 7) = Some (reservation1, Dec 1000)
   \<and> map parseInt [JNum 2, JNum 1] = map Some [2, 1]
   \<and> total_cost reservation1 = Some (Dec 3000)
   \<and> current_end reservation1 = 10801001 \<and> spec_current_end reservation1 = 10801001
   \<and> (21601001 :: int) = 10801001 + sum_list [2, 1] * 3600000
   \<and> (6000 :: int) = 3000 + 1000 * sum_list [2, 1]
   \<and> (6000 :: int) = 3000 + (\<Sum>q\<leftarrow>[2, 1]. spec_extensionCost 1000 q)"
proof -
  have r: "reservations store1 1 = Some reservation1" by (simp add: example_defs)
  have ne: "[JNum 2, JNum 1] \<noteq> []" by simp
  have c2: "\<lceil>2 :: rat\<rceil> = 2" and c1: "\<lceil>1 :: rat\<rceil> = 1" by simp_all
  from extend_accrual [OF extend_all_store1 r ne] r ne extend_all_store1 show ?thesis
    by (simp add: example_defs reservationQuery_def current_end_def spec_current_end_def
        parseInt_number_1 parseInt_number_2 spec_extensionCost_def)
qed

text \<open>
  C4 fails on two counts in one call. Reservation 1 has been extended by 2 hours and
  then by \<open>- 5\<close> (\<open>extend_store_back\<close>), so its extended end, 1001, is earlier than its
  expected end, 10801001, and its cost is 0. An extension by 1.5 hours now adds one
  hour to the extended end and 10.00 to the cost. C4 has an hour and a half, or at
  least the parsed hour, added to the later of the two ends, and 20.00 added to the
  cost.
\<close>

theorem extend_fractional_hours_counterexample:
  "extendReservation store_back (Some (Id 1)) (JNum (3 / 2)) (Some 7) =
     (Inr \<lparr>ok_updated = Some (reservation1_back\<lparr>extended_end_time := Some 3601001,
              extension_count := Some 3, extension_cost := Some (Dec (- 2000)),
              total_cost := Some (Dec 1000)\<rparr>),
           ok_additionalCost = Dec 1000, ok_newEndTime = Some 3601001\<rparr>,
      store_back\<lparr>reservations := [1 \<mapsto> reservation1_back\<lparr>extended_end_time := Some 3601001,
              extension_count := Some 3, extension_cost := Some (Dec (- 2000)),
              total_cost := Some (Dec 1000)\<rparr>]\<rparr>)
   \<and> total_cost reservation1_back = Some (Dec 0)
   \<and> Dec 1000 \<noteq> Dec (0 + spec_extensionCost 1000 (3 / 2))
   \<and> extended_end_time reservation1_back = Some 1001
   \<and> expected_end_time reservation1_back = Some 10801001
   \<and> spec_current_end reservation1_back = 10801001
   \<and> (3601001 :: rat) \<noteq> of_int (spec_current_end reservation1_back) + 3 / 2 * 3600000
   \<and> (3601001 :: int) \<noteq> spec_current_end reservation1_back + 1 * 3600000"
proof -
  have "\<lceil>3 / 2 :: rat\<rceil> = 2" by code_simp
  then show ?thesis
    by (simp add: extend_defs example_defs parseInt_number_half fits_int4_def
        spec_extensionCost_def spec_current_end_def)
qed


subsection \<open>C5: monotonicity under extensions\<close>

text \<open>
  C5, as amended: over any sequence of successful extensions that run one after the
  other, with no other request in between, the count grows by one per call; and if
  every call's hours parse to a number that is not negative, the end time does not
  decrease, and an \<open>extended_end_time\<close> that was set is never replaced by an earlier
  one.
\<close>

theorem extend_monotone:
  assumes "extend_all d rid u hs = Some d'" and "reservations d rid = Some r"
  shows "\<exists>r'. reservations d' rid = Some r'
     \<and> extension_count r' = map_option (\<lambda>c. c + int (length hs)) (extension_count r)
     \<and> ((\<forall>h\<in>set hs. \<exists>n\<ge>0. parseInt h = Some n) \<longrightarrow>
           current_end r \<le> current_end r'
         \<and> (\<forall>x. extended_end_time r = Some x \<longrightarrow>
               (\<exists>x'. extended_end_time r' = Some x' \<and> x \<le> x')))"
proof -
  from extend_all_accrual [OF assms] obtain ns r' where
    ns: "map parseInt hs = map Some ns" and r': "reservations d' rid = Some r'" and
    e: "current_end r' = current_end r + sum_list ns * 3600000" and
    ext: "hs \<noteq> [] \<longrightarrow> extended_end_time r' = Some (current_end r')" and
    same: "hs = [] \<longrightarrow> r' = r" and
    cnt: "extension_count r' = map_option (\<lambda>c. c + int (length hs)) (extension_count r)"
    by blast
  have mono: "current_end r \<le> current_end r'
         \<and> (\<forall>x. extended_end_time r = Some x \<longrightarrow>
               (\<exists>x'. extended_end_time r' = Some x' \<and> x \<le> x'))"
    if nonneg: "\<forall>h\<in>set hs. \<exists>n\<ge>0. parseInt h = Some n"
  proof -
    have "\<forall>n\<in>set ns. 0 \<le> n"
    proof
      fix n assume "n \<in> set ns"
      then have "Some n \<in> set (map Some ns)" by simp
      with ns have "Some n \<in> parseInt ` set hs" by (metis list.set_map)
      with nonneg show "0 \<le> n" by auto
    qed
    then have "0 \<le> sum_list ns" by (simp add: sum_list_nonneg)
    with e have le: "current_end r \<le> current_end r'" by simp
    have "\<exists>x'. extended_end_time r' = Some x' \<and> x \<le> x'" if "extended_end_time r = Some x" for x
    proof (cases "hs = []")
      case True
      with same that show ?thesis by simp
    next
      case False
      with ext le current_end_extended [OF that] show ?thesis by simp
    qed
    with le show ?thesis by blast
  qed
  from r' cnt mono show ?thesis by blast
qed

theorem extend_monotone_witness:
  "extend_all store1 1 (Some 7) [JNum 2, JNum 1] =
     Some (store2\<lparr>reservations := [1 \<mapsto> reservation1_extended\<lparr>extended_end_time := Some 21601001,
              extension_count := Some 2, extension_cost := Some (Dec 3000),
              total_cost := Some (Dec 6000)\<rparr>]\<rparr>)
   \<and> reservations store1 1 = Some reservation1
   \<and> parseInt (JNum 2) = Some 2 \<and> (0 :: int) \<le> 2
   \<and> parseInt (JNum 1) = Some 1 \<and> (0 :: int) \<le> 1
   \<and> extension_count reservation1 = Some 0
   \<and> current_end reservation1 = 10801001 \<and> (10801001 :: int) \<le> 21601001"
proof -
  have r: "reservations store1 1 = Some reservation1" by (simp add: example_defs)
  from extend_monotone [OF extend_all_store1 r] r extend_all_store1 show ?thesis
    by (simp add: example_defs current_end_def parseInt_number_1 parseInt_number_2)
qed

text \<open>
  The handler accepts negative hours, which are truthy: after the extension by 2
  hours, an extension by \<open>- 5\<close> succeeds and moves \<open>extended_end_time\<close> from 18001001
  back to 1001.
\<close>

theorem extend_negative_hours_counterexample:
  "extendReservation store2 (Some (Id 1)) (JNum (- 5)) (Some 7) =
     (Inr \<lparr>ok_updated = Some (reservation1_extended\<lparr>extended_end_time := Some 1001,
              extension_count := Some 2, extension_cost := Some (Dec (- 3000)),
              total_cost := Some (Dec 0)\<rparr>),
           ok_additionalCost = Dec (- 5000), ok_newEndTime = Some 1001\<rparr>,
      store2\<lparr>reservations := [1 \<mapsto> reservation1_extended\<lparr>extended_end_time := Some 1001,
              extension_count := Some 2, extension_cost := Some (Dec (- 3000)),
              total_cost := Some (Dec 0)\<rparr>]\<rparr>)
   \<and> extended_end_time reservation1_extended = Some 18001001
   \<and> (1001 :: int) < 18001001"
  by (simp add: extend_defs example_defs parseInt_number_neg fits_int4_def)


subsection \<open>C6: one-time codes\<close>

text \<open>
  Run with no other call in between its two statements, \<open>verifyOTP\<close> does what C6
  says: it returns \<open>True\<close> if and only if some stored row has the phone, the code and
  the purpose, expires after the current time and is unused; it then marks the first
  such row used, and no row with that id matches again; and when every row has
  expired the result is \<open>False\<close>.
\<close>

lemma verifyOTP_sequential:
  "(fst (verifyOTP d ph otp purp now) \<longleftrightarrow>
      (\<exists>r\<in>set (verification_codes d). phone r = ph \<and> code r = otp \<and> purpose r = Some purp
          \<and> now < expires_at r \<and> is_used r = Some False))
   \<and> (\<not> fst (verifyOTP d ph otp purp now) \<longrightarrow> snd (verifyOTP d ph otp purp now) = d)
   \<and> (fst (verifyOTP d ph otp purp now) \<longrightarrow>
        (\<exists>row\<in>set (verification_codes d). otp_matches ph otp purp now row
          \<and> snd (verifyOTP d ph otp purp now) =
              d\<lparr>verification_codes := mark_used (code_id row) (verification_codes d)\<rparr>
          \<and> (\<forall>r\<in>set (verification_codes (snd (verifyOTP d ph otp purp now))).
                code_id r = code_id row \<longrightarrow> is_used r = Some True)
          \<and> (\<forall>now'. fst (verifyOTP (snd (verifyOTP d ph otp purp now)) ph otp purp now') \<longleftrightarrow>
                (\<exists>r\<in>set (verification_codes d).
                    code_id r \<noteq> code_id row \<and> otp_matches ph otp purp now' r))))
   \<and> ((\<forall>r\<in>set (verification_codes d). expires_at r \<le> now) \<longrightarrow>
        \<not> fst (verifyOTP d ph otp purp now))"
proof (intro conjI impI)
  show "fst (verifyOTP d ph otp purp now) \<longleftrightarrow>
      (\<exists>r\<in>set (verification_codes d). phone r = ph \<and> code r = otp \<and> purpose r = Some purp
          \<and> now < expires_at r \<and> is_used r = Some False)"
    by (simp add: verifyOTP_true_iff otp_matches_def)
next
  assume "\<not> fst (verifyOTP d ph otp purp now)"
  then show "snd (verifyOTP d ph otp purp now) = d" by (rule verifyOTP_false)
next
  assume "fst (verifyOTP d ph otp purp now)"
  from verifyOTP_true [OF this] obtain row where row: "row \<in> set (verification_codes d)"
    "otp_matches ph otp purp now row"
    and d': "snd (verifyOTP d ph otp purp now) =
         d\<lparr>verification_codes := mark_used (code_id row) (verification_codes d)\<rparr>"
    by blast
  have used: "\<forall>r\<in>set (verification_codes (snd (verifyOTP d ph otp purp now))).
                code_id r = code_id row \<longrightarrow> is_used r = Some True"
    using mark_used_used [of "code_id row" "verification_codes d"] by (simp add: d')
  have again: "\<forall>now'. fst (verifyOTP (snd (verifyOTP d ph otp purp now)) ph otp purp now') \<longleftrightarrow>
                (\<exists>r\<in>set (verification_codes d).
                    code_id r \<noteq> code_id row \<and> otp_matches ph otp purp now' r)"
    by (simp add: verifyOTP_true_iff d' mark_used_matches)
  from row d' used again
  show "\<exists>row\<in>set (verification_codes d). otp_matches ph otp purp now row
          \<and> snd (verifyOTP d ph otp purp now) =
              d\<lparr>verification_codes := mark_used (code_id row) (verification_codes d)\<rparr>
          \<and> (\<forall>r\<in>set (verification_codes (snd (verifyOTP d ph otp purp now))).
                code_id r = code_id row \<longrightarrow> is_used r = Some True)
          \<and> (\<forall>now'. fst (verifyOTP (snd (verifyOTP d ph otp purp now)) ph otp purp now') \<longleftrightarrow>
                (\<exists>r\<in>set (verification_codes d).
                    code_id r \<noteq> code_id row \<and> otp_matches ph otp purp now' r))"
    by blast
next
  assume "\<forall>r\<in>set (verification_codes d). expires_at r \<le> now"
  then show "\<not> fst (verifyOTP d ph otp purp now)"
    by (auto simp: verifyOTP_true_iff otp_matches_def)
qed

text \<open>
  C6 says that the code is marked used in the same transaction that reports
  success, so that there is at most one success per issued code. The function sends
  its \<^verbatim>\<open>SELECT\<close> and its \<^verbatim>\<open>UPDATE\<close> to the pool as two separate statements, in no
  transaction. With one code issued, two calls whose \<^verbatim>\<open>SELECT\<close> statements both run
  before either \<^verbatim>\<open>UPDATE\<close> both return \<open>True\<close>, where two calls that run one after
  the other return \<open>True\<close> and \<open>False\<close>.
\<close>

theorem verifyOTP_race_both_succeed:
  "verification_codes store_otp = [otp_row1]
   \<and> verifyOTP_interleaved store_otp ''+15550100'' ''123456'' ''LOGIN'' 1000
        ''+15550100'' ''123456'' ''LOGIN'' 1001 =
       ((True, True), store_otp\<lparr>verification_codes := [otp_row1\<lparr>is_used := Some True\<rparr>]\<rparr>)
   \<and> fst (verifyOTP store_otp ''+15550100'' ''123456'' ''LOGIN'' 1000) = True
   \<and> fst (verifyOTP (snd (verifyOTP store_otp ''+15550100'' ''123456'' ''LOGIN'' 1000))
        ''+15550100'' ''123456'' ''LOGIN'' 1001) = False"
  by (simp add: verify_defs example_defs)


subsection \<open>C7: extending a reservation that is not active\<close>

text \<open>
  C7, as amended: an extension of a reservation that, when the handler looks it up,
  does not exist, belongs to another user, or is not \<^verbatim>\<open>ACTIVE\<close>, fails and leaves the
  store unchanged. When the hours are present the answer is in all three cases
  404 \<^verbatim>\<open>Active reservation not found\<close>; when they are missing or falsy it is
  400 \<^verbatim>\<open>Reservation ID and additional hours are required\<close>.
\<close>

theorem extend_inactive_not_found:
  assumes "reservations d rid = None
         \<or> (\<exists>r. reservations d rid = Some r \<and> (user_id r \<noteq> u \<or> r_status r \<noteq> ACTIVE))"
  shows "extendReservation d (Some (Id rid)) h u =
           (Inl (if truthy h then (404, ''Active reservation not found'')
                 else (400, ''Reservation ID and additional hours are required'')), d)"
  using assms
  by (auto simp: extendReservation_def reservationQuery_def active_not_found_def
      required_extend_def split: option.splits)

theorem extend_inactive_not_found_witness:
  "reservations store_released 1 =
       Some (reservation1\<lparr>r_status := COMPLETED, actual_end_time := Some 3600999\<rparr>)
   \<and> truthy (JNum 2)
   \<and> extendReservation store_released (Some (Id 1)) (JNum 2) (Some 7) =
       (Inl (404, ''Active reservation not found''), store_released)
   \<and> \<not> truthy (JNum 0)
   \<and> extendReservation store_released (Some (Id 1)) (JNum 0) (Some 7) =
       (Inl (400, ''Reservation ID and additional hours are required''), store_released)"
  using extend_inactive_not_found [of store_released 1 "Some 7" "JNum 2"]
    extend_inactive_not_found [of store_released 1 "Some 7" "JNum 0"]
  by (simp add: example_defs)

text \<open>
  The answer for the completed reservation 1 of user 7 is the answer for the absent
  reservation 99 and the answer for user 8 on the active reservation of user 7.
\<close>

theorem extend_completed_counterexample:
  "map_option r_status (reservations store_released 1) = Some COMPLETED
   \<and> map_option user_id (reservations store_released 1) = Some (Some 7)
   \<and> reservations store_released 99 = None
   \<and> map_option user_id (reservations store1 1) = Some (Some 7)
   \<and> extendReservation store_released (Some (Id 1)) (JNum 2) (Some 7) =
       (Inl (404, ''Active reservation not found''), store_released)
   \<and> extendReservation store_released (Some (Id 99)) (JNum 2) (Some 7) =
       (Inl (404, ''Active reservation not found''), store_released)
   \<and> extendReservation store1 (Some (Id 1)) (JNum 2) (Some 8) =
       (Inl (404, ''Active reservation not found''), store1)"
  by (simp add: extend_defs example_defs)


subsection \<open>C8: rejected reservations\<close>

text \<open>
  C8, as amended: \<open>reserveLocker\<close> answers 400 \<^verbatim>\<open>Locker ID and duration are required\<close>
  whenever the locker id or the duration is missing or falsy, whatever the store
  holds, and leaves the store as it is; a number is falsy exactly when it is zero.
  With a truthy duration and the id of a locker whose status is not \<^verbatim>\<open>AVAILABLE\<close> it
  answers 400 \<^verbatim>\<open>Locker not available\<close> and leaves the store as it is.
\<close>

theorem reserve_rejections:
  "(lockerId = None \<or> \<not> truthy duration \<longrightarrow>
      reserveLocker d lockerId duration userId env = (Inl required_reserve, d))
   \<and> (truthy duration \<and> (\<exists>l. lockers d lid = Some l \<and> l_status l \<noteq> AVAILABLE) \<longrightarrow>
      reserveLocker d (Some (Id lid)) duration userId env = (Inl not_available, d))
   \<and> (truthy (JNum q) \<longleftrightarrow> q \<noteq> 0)"
  by (auto simp: reserveLocker_def reserve_check_def lockerQuery_def split: option.splits)

theorem reserve_rejections_witness:
  "\<not> truthy (JNum 0)
   \<and> reserveLocker store0 (Some (Id 1)) (JNum 0) (Some 7) env_a = (Inl required_reserve, store0)
   \<and> truthy (JNum 3) \<and> map_option l_status (lockers store1 1) = Some OCCUPIED
   \<and> reserveLocker store1 (Some (Id 1)) (JNum 3) (Some 8) env_b = (Inl not_available, store1)"
  using reserve_rejections [of "Some (Id 1)" "JNum 0" store0 "Some 7" env_a 1 0]
    reserve_rejections [of "Some (Id 1)" "JNum 3" store1 "Some 8" env_b 1 0]
  by (simp add: example_defs)

text \<open>
  A negative duration is truthy and is not rejected: \<open>- 5\<close> hours on the available
  locker 1 are reserved, at the cost of \<open>- 50.00\<close>, with an end before the start.
\<close>

theorem reserve_negative_duration_counterexample:
  "(- 5 :: rat) \<le> 0 \<and>
   reserveLocker store0 (Some (Id 1)) (JNum (- 5)) (Some 7) env_a =
     (Inr \<lparr>ok_reservation = reservation1\<lparr>expected_end_time := Some (- 17998999),
                                          total_cost := Some (Dec (- 5000))\<rparr>,
           ok_accessCode = 325000, ok_expiresAt = - 17998999\<rparr>,
      store1\<lparr>reservations := [1 \<mapsto> reservation1\<lparr>expected_end_time := Some (- 17998999),
                                                    total_cost := Some (Dec (- 5000))\<rparr>]\<rparr>)"
  by (simp add: reserve_defs example_defs parseInt_number_neg access_code_a)


subsection \<open>C9: reserve after release\<close>

text \<open>
  C9: after a successful release of a reservation, the locker it refers to is
  \<^verbatim>\<open>AVAILABLE\<close>, the availability query returns it, and a reservation of that locker
  succeeds. The request is one that the handler can serve: its duration is read by
  \<^verbatim>\<open>parseInt\<close> as a number, the end time is a date that the column accepts, as is the
  start time, the cost fits its column, the locker has a size, the generated
  reservation id is new, and the random number is one that \<^verbatim>\<open>Math.random()\<close> returns.
\<close>

theorem release_then_reserve:
  assumes "releaseLocker d (Id rid) u env = (Inr ok, d1)"
    and "reservations d rid = Some r" and "locker_id r = Some lid"
    and "lockers d lid = Some l" and "size_id l = Some sid" and "locker_sizes d sid = Some ls"
    and "truthy duration" and "parseInt duration = Some h"
    and "fits_decimal (js_times (base_price ls) (Some h))"
    and "reservations d (new_reservation_id env') = None"
    and "fits_timestamp (start_clock env')" and "valid_date (end_clock env')"
    and "fits_timestamp (end_clock env' + h * 3600000)"
    and "0 \<le> random_value env'" and "random_value env' < 1"
  shows "lockers d1 lid = Some (l\<lparr>l_status := AVAILABLE\<rparr>)
       \<and> lockerQuery d1 lid = Some (l\<lparr>l_status := AVAILABLE\<rparr>, base_price ls)
       \<and> (\<exists>ok' d2. reserveLocker d1 (Some (Id lid)) duration u' env' = (Inr ok', d2))"
proof -
  from assms(1) obtain r0 where q: "release_query d rid u = Some r0"
    and tx: "release_transaction d rid r0 env = (Inr ok, d1)"
    by (auto dest: releaseLocker_success)
  from q assms(2) have "r0 = r" by (simp add: release_query_Some)
  with tx assms(2) have eff:
    "reservations d1 = (reservations d)(rid \<mapsto>
          r\<lparr>r_status := COMPLETED, actual_end_time := Some (completed_clock env)\<rparr>)"
    "lockers d1 = (case locker_id r of None \<Rightarrow> lockers d
                      | Some lid \<Rightarrow> update_locker_status (lockers d) AVAILABLE lid)"
    "locker_sizes d1 = locker_sizes d"
    using release_transaction_success [of d rid r env ok d1] by simp_all
  from eff(2) assms(3,4) have lk: "lockers d1 lid = Some (l\<lparr>l_status := AVAILABLE\<rparr>)"
    by (simp add: update_locker_status_def)
  with eff(3) assms(5,6)
  have lq: "lockerQuery d1 lid = Some (l\<lparr>l_status := AVAILABLE\<rparr>, base_price ls)"
    by (simp add: lockerQuery_def)
  from assms(2,10) have "new_reservation_id env' \<noteq> rid" by auto
  with eff(1) assms(10) have fresh: "reservations d1 (new_reservation_id env') = None"
    by simp
  from lq assms(7) have "reserve_check d1 (Some (Id lid)) duration = Inr (lid, base_price ls)"
    by (simp add: reserve_check_def)
  moreover from reserve_transaction_succeeds [OF assms(8) lk assms(9) fresh assms(11-15)]
  obtain ok' d2 where
    "reserve_transaction d1 lid (base_price ls) duration u' env' = (Inr ok', d2)"
    by blast
  ultimately have "reserveLocker d1 (Some (Id lid)) duration u' env' = (Inr ok', d2)"
    by (simp add: reserveLocker_def)
  with lk lq show ?thesis by blast
qed

theorem release_then_reserve_witness:
  "releaseLocker store1 (Id 1) (Some 7) env_release = (Inr (), store_released)
   \<and> reservations store1 1 = Some reservation1 \<and> locker_id reservation1 = Some 1
   \<and> map_option l_status (lockers store1 1) = Some OCCUPIED
   \<and> truthy (JNum 2) \<and> parseInt (JNum 2) = Some 2
   \<and> fits_decimal (js_times (Dec 1000) (Some 2))
   \<and> reservations store1 (new_reservation_id env_b) = None
   \<and> fits_timestamp (start_clock env_b) \<and> valid_date (end_clock env_b)
   \<and> fits_timestamp (end_clock env_b + 2 * 3600000)
   \<and> 0 \<le> random_value env_b \<and> random_value env_b < 1
   \<and> map_option l_status (lockers store_released 1) = Some AVAILABLE
   \<and> lockerQuery store_released 1 \<noteq> None
   \<and> reserveLocker store_released (Some (Id 1)) (JNum 2) (Some 8) env_b =
     (Inr \<lparr>ok_reservation = reservation2, ok_accessCode = 775000, ok_expiresAt = 7201005\<rparr>,
      store_released\<lparr>lockers := lockers store1,
        reservations := (reservations store_released)(2 \<mapsto> reservation2)\<rparr>)"
proof -
  have a: "reservations store1 1 = Some reservation1" by (simp add: example_defs)
  have b: "locker_id reservation1 = Some 1" by (simp add: example_defs)
  have c: "lockers store1 1 = Some \<lparr>location_id = Some 1, size_id = Some 1,
             locker_code = ''A12'', l_status = OCCUPIED\<rparr>" by (simp add: example_defs)
  have e: "size_id \<lparr>location_id = Some 1, size_id = Some 1,
             locker_code = ''A12'', l_status = OCCUPIED\<rparr> = Some 1" by simp
  have f: "locker_sizes store1 1 = Some \<lparr>size_name = Some ''SMALL'', base_price = Dec 1000\<rparr>"
    by (simp add: example_defs)
  have g: "truthy (JNum 2)" by simp
  have h: "parseInt (JNum 2) = Some 2" by (simp add: parseInt_number_2)
  have i: "fits_decimal (js_times (base_price \<lparr>size_name = Some ''SMALL'', base_price = Dec 1000\<rparr>)
             (Some 2))" by simp
  have j: "reservations store1 (new_reservation_id env_b) = None" by (simp add: example_defs)
  have k: "fits_timestamp (start_clock env_b)"
    by (simp add: example_defs fits_timestamp_def valid_date_def)
  have l: "valid_date (end_clock env_b)" by (simp add: example_defs valid_date_def)
  have m: "fits_timestamp (end_clock env_b + 2 * 3600000)"
    by (simp add: example_defs fits_timestamp_def valid_date_def)
  have n: "0 \<le> random_value env_b" and o: "random_value env_b < 1"
    by (simp_all add: example_defs)
  from release_then_reserve [OF release_store1 a b c e f g h i j k l m n o, of "Some 8"]
    release_store1 reserve_store_released a b c g h j k l m n o
  show ?thesis by (simp add: lockerQuery_def example_defs)
qed


subsection \<open>C10: what an extension leaves alone\<close>

text \<open>
  C10: a successful extension replaces one row of \<^verbatim>\<open>reservations\<close>, and in that row
  only \<open>extended_end_time\<close>, \<open>extension_count\<close>, \<open>extension_cost\<close> and \<open>total_cost\<close>;
  the start time, the expected end, the status, the access code, the user and the
  locker of the row are as before, and so are all lockers and every other table.
\<close>

theorem extend_frame:
  assumes "extendReservation d p h u = (Inr ok, d')"
  shows "\<exists>rid r r'. p = Some (Id rid) \<and> reservations d rid = Some r
     \<and> reservations d' = (reservations d)(rid \<mapsto> r')
     \<and> r' = r\<lparr>extended_end_time := extended_end_time r', extension_count := extension_count r',
              extension_cost := extension_cost r', total_cost := total_cost r'\<rparr>
     \<and> start_time r' = start_time r \<and> expected_end_time r' = expected_end_time r
     \<and> r_status r' = r_status r \<and> access_code r' = access_code r
     \<and> user_id r' = user_id r \<and> locker_id r' = locker_id r
     \<and> lockers d' = lockers d \<and> locker_sizes d' = locker_sizes d
     \<and> reservation_history d' = reservation_history d
     \<and> verification_codes d' = verification_codes d"
proof -
  from extend_success [OF assms] obtain rid r price where
    p: "p = Some (Id rid)" and q: "reservationQuery d rid u = Some (r, price)"
    by blast
  then have r: "reservations d rid = Some r" by (simp add: reservationQuery_Some)
  from extend_success_row [OF assms [unfolded p] r] obtain n r' where
    "reservations d' = (reservations d)(rid \<mapsto> r')" "lockers d' = lockers d"
    "locker_sizes d' = locker_sizes d" "reservation_history d' = reservation_history d"
    "verification_codes d' = verification_codes d"
    "r' = r\<lparr>extended_end_time := Some (current_end r + n * 3600000),
              extension_count := map_option (\<lambda>n. n + 1) (extension_count r),
              extension_cost := Some (js_plus (case extension_cost r of None \<Rightarrow> Dec 0
                                               | Some x \<Rightarrow> x) (js_times price (Some n))),
              total_cost := Some (js_plus (parseFloat (total_cost r))
                                    (js_times price (Some n)))\<rparr>"
    using q by auto
  with p r show ?thesis
    by (intro exI [of _ rid] exI [of _ r] exI [of _ r']) simp
qed

theorem extend_frame_witness:
  "extendReservation store1 (Some (Id 1)) (JNum 2) (Some 7) =
     (Inr \<lparr>ok_updated = Some reservation1_extended, ok_additionalCost = Dec 2000,
           ok_newEndTime = Some 18001001\<rparr>, store2)
   \<and> reservations store1 1 = Some reservation1
   \<and> reservations store2 = (reservations store1)(1 \<mapsto> reservation1_extended)
   \<and> start_time reservation1_extended = start_time reservation1
   \<and> expected_end_time reservation1_extended = expected_end_time reservation1
   \<and> r_status reservation1_extended = r_status reservation1
   \<and> access_code reservation1_extended = access_code reservation1
   \<and> user_id reservation1_extended = user_id reservation1
   \<and> locker_id reservation1_extended = locker_id reservation1
   \<and> lockers store2 = lockers store1"
  using extend_frame [OF extend_store1] extend_store1
  by (simp add: example_defs)

end
